theory Spec2Isabelle
  imports Complex_Main "HOL-Library.Sublist"
begin

unbundle bit_operations_syntax

section \<open>The X-Plane airport writer (XpAirportWriter)\<close>

text \<open>
  A shallow embedding of the row interpreter \<^verbatim>\<open>XpAirportWriter\<close>: the member variables
  become the record \<open>session\<close>, every member function becomes a function from session
  to session, and every prepared insert statement becomes a map of bound values together
  with the list of rows it has executed so far.

  C++ \<^verbatim>\<open>float\<close> values are modelled by \<open>real\<close> and \<^verbatim>\<open>int\<close> counters by \<open>int\<close>; no
  statement below depends on rounding or on overflow.
\<close>

subsection \<open>Row codes and enumerations\<close>

text \<open>
  The enumeration \<^verbatim>\<open>AirportRowCode\<close>, with the names used by \<^verbatim>\<open>XpAirportWriter::write\<close>.
  The numeric values live in a header that is not part of the sources at hand, so a row
  reaches the model already classified. \<open>OTHER_ROWCODE\<close> stands for an integer that is
  none of the enumerators (the \<^verbatim>\<open>static_cast\<close> accepts it and no \<^verbatim>\<open>case\<close> matches).
\<close>

datatype AirportRowCode =
    NO_ROWCODE
  | LAND_AIRPORT_HEADER | SEAPLANE_BASE_HEADER | HELIPORT_HEADER
  | LAND_RUNWAY | WATER_RUNWAY | HELIPAD
  | PAVEMENT_HEADER
  | NODE | NODE_AND_CONTROL_POINT | NODE_CLOSE | NODE_AND_CONTROL_POINT_CLOSE
  | AIRPORT_VIEWPOINT | AEROPLANE_STARTUP_LOCATION | LIGHTING_OBJECT
  | AIRPORT_LOCATION | RAMP_START_METADATA
  | TAXI_ROUTE_NETWORK_NODE | TAXI_ROUTE_NETWORK_EDGE
  | METADATA_RECORDS
  | TRUCK_PARKING_LOCATION | TRUCK_DESTINATION_LOCATION
  | COM_WEATHER | COM_UNICOM | COM_CLEARANCE | COM_GROUND | COM_TOWER
  | COM_APPROACH | COM_DEPARTURE
  | UNUSED_ROWCODE
  | OTHER_ROWCODE int

text \<open>
  \<open>UNUSED_ROWCODE\<close> gathers the enumerators that \<^verbatim>\<open>write\<close> lists under
  ``Unused rowcodes'' (linear features, boundaries, beacons, windsocks, signs, traffic
  flow rules and so on): they share one empty \<^verbatim>\<open>case\<close> body.
\<close>

datatype Surface =
    UNKNOWN | TRANSPARENT | ASPHALT | CONCRETE | TURF_OR_GRASS | DRY_LAKEBED | DIRT
  | GRAVEL | WATER | SNOW_OR_ICE | OTHER_SURFACE

datatype ApproachIndicator =
    NO_APPR_INDICATOR | VASI | PAPI_4L | PAPI_4R | SPACE_SHUTTLE_PAPI | TRI_COLOR_VASI
  | RUNWAY_GUARD | OTHER_INDICATOR

fun surfaceToDb :: "Surface \<Rightarrow> string" where
  "surfaceToDb UNKNOWN = ''UNKNOWN''"
| "surfaceToDb TRANSPARENT = ''TR''"
| "surfaceToDb ASPHALT = ''A''"
| "surfaceToDb CONCRETE = ''C''"
| "surfaceToDb TURF_OR_GRASS = ''G''"
| "surfaceToDb DRY_LAKEBED = ''D''"
| "surfaceToDb DIRT = ''D''"
| "surfaceToDb GRAVEL = ''GR''"
| "surfaceToDb WATER = ''W''"
| "surfaceToDb SNOW_OR_ICE = ''SN''"
| "surfaceToDb OTHER_SURFACE = []"

fun approachIndicatorToDb :: "ApproachIndicator \<Rightarrow> string" where
  "approachIndicatorToDb VASI = ''VASI22''"
| "approachIndicatorToDb PAPI_4L = ''PAPI4''"
| "approachIndicatorToDb PAPI_4R = ''PAPI4''"
| "approachIndicatorToDb SPACE_SHUTTLE_PAPI = ''PAPI4''"
| "approachIndicatorToDb TRI_COLOR_VASI = ''TRICOLOR''"
| "approachIndicatorToDb RUNWAY_GUARD = ''GUARD''"
| "approachIndicatorToDb NO_APPR_INDICATOR = []"
| "approachIndicatorToDb OTHER_INDICATOR = []"

datatype Marking =
    NO_MARKING | VISUAL | NON_PAP | PAP | UK_NON_PAP | UK_PAP | OTHER_MARKING

datatype ApproachLight =
    NO_ALS | ALSF_I | ALSF_II | CALVERT | CALVERT_ILS | SSALR | SSALF | SALS | MALSR
  | MALSF | MALS | ODALS | RAIL | OTHER_ALS

definition isSurfaceHard :: "Surface \<Rightarrow> bool" where
  "isSurfaceHard v = (v = UNKNOWN \<or> v = TRANSPARENT \<or> v = ASPHALT \<or> v = CONCRETE)"

definition isSurfaceSoft :: "Surface \<Rightarrow> bool" where
  "isSurfaceSoft v =
     (v = TURF_OR_GRASS \<or> v = DRY_LAKEBED \<or> v = DIRT \<or> v = GRAVEL \<or> v = SNOW_OR_ICE)"

definition isSurfaceWater :: "Surface \<Rightarrow> bool" where
  "isSurfaceWater v = (v = WATER)"

text \<open>
  The runway marking flags, with the bit positions that the comment at the head of
  \<^verbatim>\<open>markingToDb\<close> lists.
\<close>

definition EDGES :: int where "EDGES = push_bit 0 1"
definition THRESHOLD :: int where "THRESHOLD = push_bit 1 1"
definition FIXED_DISTANCE :: int where "FIXED_DISTANCE = push_bit 2 1"
definition TOUCHDOWN :: int where "TOUCHDOWN = push_bit 3 1"
definition DASHES :: int where "DASHES = push_bit 4 1"
definition IDENT :: int where "IDENT = push_bit 5 1"
definition PRECISION :: int where "PRECISION = push_bit 6 1"
definition EDGE_PAVEMENT :: int where "EDGE_PAVEMENT = push_bit 7 1"
definition ALTERNATE_THRESHOLD :: int where "ALTERNATE_THRESHOLD = push_bit 13 1"
definition ALTERNATE_FIXEDDISTANCE :: int where "ALTERNATE_FIXEDDISTANCE = push_bit 14 1"
definition ALTERNATE_TOUCHDOWN :: int where "ALTERNATE_TOUCHDOWN = push_bit 15 1"
definition ALTERNATE_PRECISION :: int where "ALTERNATE_PRECISION = push_bit 21 1"

fun markingToDb :: "Marking \<Rightarrow> int" where
  "markingToDb NO_MARKING = 0"
| "markingToDb VISUAL = EDGES OR DASHES OR IDENT"
| "markingToDb NON_PAP =
     EDGES OR THRESHOLD OR FIXED_DISTANCE OR TOUCHDOWN OR DASHES OR IDENT OR EDGE_PAVEMENT"
| "markingToDb PAP =
     EDGES OR THRESHOLD OR FIXED_DISTANCE OR TOUCHDOWN OR DASHES OR IDENT OR PRECISION
       OR EDGE_PAVEMENT"
| "markingToDb UK_NON_PAP =
     EDGES OR ALTERNATE_THRESHOLD OR ALTERNATE_FIXEDDISTANCE OR ALTERNATE_TOUCHDOWN OR DASHES
       OR IDENT OR EDGE_PAVEMENT"
| "markingToDb UK_PAP =
     EDGES OR ALTERNATE_THRESHOLD OR ALTERNATE_FIXEDDISTANCE OR ALTERNATE_TOUCHDOWN OR DASHES
       OR IDENT OR ALTERNATE_PRECISION OR EDGE_PAVEMENT"
| "markingToDb OTHER_MARKING = 0"

fun alsToDb :: "ApproachLight \<Rightarrow> string" where
  "alsToDb NO_ALS = []"
| "alsToDb ALSF_I = ''ALSF1''"
| "alsToDb ALSF_II = ''ALSF2''"
| "alsToDb CALVERT = ''CALVERT''"
| "alsToDb CALVERT_ILS = ''CALVERT2''"
| "alsToDb SSALR = ''SSALR''"
| "alsToDb SSALF = ''SSALF''"
| "alsToDb SALS = ''SALS''"
| "alsToDb MALSR = ''MALSR''"
| "alsToDb MALSF = ''MALSF''"
| "alsToDb MALS = ''MALS''"
| "alsToDb ODALS = ''ODALS''"
| "alsToDb RAIL = ''RAIL''"
| "alsToDb OTHER_ALS = []"

subsection \<open>Field indexes\<close>

abbreviation (input) ap_ELEVATION :: nat where "ap_ELEVATION \<equiv> 1"
abbreviation (input) ap_ICAO :: nat where "ap_ICAO \<equiv> 4"
abbreviation (input) ap_NAME :: nat where "ap_NAME \<equiv> 5"

abbreviation (input) n_LATY :: nat where "n_LATY \<equiv> 1"
abbreviation (input) n_LONX :: nat where "n_LONX \<equiv> 2"
abbreviation (input) n_CTRL_LATY :: nat where "n_CTRL_LATY \<equiv> 3"
abbreviation (input) n_CTRL_LONX :: nat where "n_CTRL_LONX \<equiv> 4"

abbreviation (input) p_SURFACE :: nat where "p_SURFACE \<equiv> 1"

abbreviation (input) v_TYPE :: nat where "v_TYPE \<equiv> 3"
abbreviation (input) v_ORIENT :: nat where "v_ORIENT \<equiv> 4"
abbreviation (input) v_ANGLE :: nat where "v_ANGLE \<equiv> 5"
abbreviation (input) v_RUNWAY :: nat where "v_RUNWAY \<equiv> 6"

abbreviation (input) sl_LATY :: nat where "sl_LATY \<equiv> 1"
abbreviation (input) sl_LONX :: nat where "sl_LONX \<equiv> 2"
abbreviation (input) sl_HEADING :: nat where "sl_HEADING \<equiv> 3"
abbreviation (input) sl_TYPE :: nat where "sl_TYPE \<equiv> 4"
abbreviation (input) sl_NAME :: nat where "sl_NAME \<equiv> 6"

abbreviation (input) rw_WIDTH :: nat where "rw_WIDTH \<equiv> 1"
abbreviation (input) rw_WATER_PRIMARY_NUMBER :: nat where "rw_WATER_PRIMARY_NUMBER \<equiv> 3"
abbreviation (input) rw_WATER_PRIMARY_LATY :: nat where "rw_WATER_PRIMARY_LATY \<equiv> 4"
abbreviation (input) rw_WATER_PRIMARY_LONX :: nat where "rw_WATER_PRIMARY_LONX \<equiv> 5"
abbreviation (input) rw_WATER_SECONDARY_NUMBER :: nat where "rw_WATER_SECONDARY_NUMBER \<equiv> 6"
abbreviation (input) rw_WATER_SECONDARY_LATY :: nat where "rw_WATER_SECONDARY_LATY \<equiv> 7"
abbreviation (input) rw_WATER_SECONDARY_LONX :: nat where "rw_WATER_SECONDARY_LONX \<equiv> 8"
abbreviation (input) rw_SURFACE :: nat where "rw_SURFACE \<equiv> 2"
abbreviation (input) rw_SHOULDER_SURFACE :: nat where "rw_SHOULDER_SURFACE \<equiv> 3"
abbreviation (input) rw_CENTER_LIGHTS :: nat where "rw_CENTER_LIGHTS \<equiv> 5"
abbreviation (input) rw_EDGE_LIGHTS :: nat where "rw_EDGE_LIGHTS \<equiv> 6"
abbreviation (input) rw_PRIMARY_NUMBER :: nat where "rw_PRIMARY_NUMBER \<equiv> 8"
abbreviation (input) rw_PRIMARY_LATY :: nat where "rw_PRIMARY_LATY \<equiv> 9"
abbreviation (input) rw_PRIMARY_LONX :: nat where "rw_PRIMARY_LONX \<equiv> 10"
abbreviation (input) rw_PRIMARY_DISPLACED_THRESHOLD :: nat where "rw_PRIMARY_DISPLACED_THRESHOLD \<equiv> 11"
abbreviation (input) rw_PRIMARY_OVERRUN_BLASTPAD :: nat where "rw_PRIMARY_OVERRUN_BLASTPAD \<equiv> 12"
abbreviation (input) rw_PRIMARY_MARKINGS :: nat where "rw_PRIMARY_MARKINGS \<equiv> 13"
abbreviation (input) rw_PRIMARY_ALS :: nat where "rw_PRIMARY_ALS \<equiv> 14"
abbreviation (input) rw_PRIMARY_TDZ_LIGHT :: nat where "rw_PRIMARY_TDZ_LIGHT \<equiv> 15"
abbreviation (input) rw_PRIMARY_REIL :: nat where "rw_PRIMARY_REIL \<equiv> 16"
abbreviation (input) rw_SECONDARY_NUMBER :: nat where "rw_SECONDARY_NUMBER \<equiv> 17"
abbreviation (input) rw_SECONDARY_LATY :: nat where "rw_SECONDARY_LATY \<equiv> 18"
abbreviation (input) rw_SECONDARY_LONX :: nat where "rw_SECONDARY_LONX \<equiv> 19"
abbreviation (input) rw_SECONDARY_DISPLACED_THRESHOLD :: nat where "rw_SECONDARY_DISPLACED_THRESHOLD \<equiv> 20"
abbreviation (input) rw_SECONDARY_OVERRUN_BLASTPAD :: nat where "rw_SECONDARY_OVERRUN_BLASTPAD \<equiv> 21"
abbreviation (input) rw_SECONDARY_MARKINGS :: nat where "rw_SECONDARY_MARKINGS \<equiv> 22"
abbreviation (input) rw_SECONDARY_ALS :: nat where "rw_SECONDARY_ALS \<equiv> 23"
abbreviation (input) rw_SECONDARY_TDZ_LIGHT :: nat where "rw_SECONDARY_TDZ_LIGHT \<equiv> 24"
abbreviation (input) rw_SECONDARY_REIL :: nat where "rw_SECONDARY_REIL \<equiv> 25"

abbreviation (input) sm_WIDTH :: nat where "sm_WIDTH \<equiv> 1"
abbreviation (input) sm_OPTYPE :: nat where "sm_OPTYPE \<equiv> 2"
abbreviation (input) sm_AIRLINE :: nat where "sm_AIRLINE \<equiv> 3"

subsection \<open>Strings and lines\<close>

text \<open>\<^verbatim>\<open>QStringList::value(i)\<close>: the field, or the empty string past the end.\<close>

definition line_value :: "string list \<Rightarrow> nat \<Rightarrow> string" where
  "line_value line i = (if i < length line then line ! i else [])"

text \<open>
  Modelled from the spec: the helper \<^verbatim>\<open>XpWriter::at\<close> is declared in a base class that
  is not among the sources. The spec requires that ``missing trailing fields must be
  tolerated (treated as empty string) rather than raising an error''.
\<close>

definition at_field :: "string list \<Rightarrow> nat \<Rightarrow> string" where
  "at_field line i = (if i < length line then line ! i else [])"

text \<open>\<^verbatim>\<open>QString::contains(sub)\<close>: \<open>sub\<close> occurs as a contiguous substring.\<close>

fun contains :: "string \<Rightarrow> string \<Rightarrow> bool" where
  "contains [] sub = (sub = [])"
| "contains (c # cs) sub = (prefix sub (c # cs) \<or> contains cs sub)"

text \<open>\<^verbatim>\<open>QString::startsWith(p)\<close>.\<close>

definition startsWith :: "string \<Rightarrow> string \<Rightarrow> bool" where
  "startsWith s p = prefix p s"

subsection \<open>Pavement geometry\<close>

text \<open>
  Modelled from the spec: the class \<^verbatim>\<open>XpGeometry\<close> behind \<^verbatim>\<open>currentPavement\<close> is not among
  the sources. The spec describes a pavement polygon as ``an ordered boundary node
  sequence plus zero or more hole node sequences; nodes may carry an optional bezier
  control point'', and the assembler as appending a node ``to boundary'' or ``to current
  hole, starting a new hole if startingNewHole is set''. Appending to the current hole
  when there is none is not described; the model reports it as \<open>None\<close>.
\<close>

datatype 'pos XpGeometry =
  XpGeometry (boundary: "('pos \<times> 'pos) list") (holes: "('pos \<times> 'pos) list list")

definition clearGeometry :: "'pos XpGeometry" where
  "clearGeometry = XpGeometry [] []"

definition addBoundaryNode :: "'pos \<Rightarrow> 'pos \<Rightarrow> 'pos XpGeometry \<Rightarrow> 'pos XpGeometry" where
  "addBoundaryNode node control g = XpGeometry (boundary g @ [(node, control)]) (holes g)"

definition addHoleNode ::
  "'pos \<Rightarrow> 'pos \<Rightarrow> bool \<Rightarrow> 'pos XpGeometry \<Rightarrow> 'pos XpGeometry option" where
  "addHoleNode node control newHole g =
     (if newHole then Some (XpGeometry (boundary g) (holes g @ [[(node, control)]]))
      else if holes g = [] then None
      else Some (XpGeometry (boundary g)
                   (butlast (holes g) @ [last (holes g) @ [(node, control)]])))"

subsection \<open>Bound values and rows\<close>

text \<open>
  A \<^verbatim>\<open>QVariant\<close> as far as the writer binds one. The pavement geometry is bound as the
  polygon itself: its serialisation (\<^verbatim>\<open>writeToByteArray\<close>) belongs to the absent class.
\<close>

datatype 'pos QVariant =
    VNull | VInt int | VFloat real | VStr string | VBool bool
  | VGeometry "'pos XpGeometry"

text \<open>
  The bound values of a prepared statement (\<^verbatim>\<open>SqlQuery\<close>) and the fields of an
  \<^verbatim>\<open>SqlRecord\<close>, by placeholder name. \<^verbatim>\<open>exec()\<close> appends the current bindings to the
  rows of the statement's table.
\<close>

type_synonym 'pos bindings = "string \<rightharpoonup> 'pos QVariant"

text \<open>
  \<^verbatim>\<open>boundValue(name, true).toString()\<close> and \<^verbatim>\<open>SqlRecord::valueStr\<close>. The writer reads
  back only columns to which it binds text (\<^verbatim>\<open>:type\<close>, \<^verbatim>\<open>:name\<close>); an unbound or null
  value reads as the empty string. Other kinds of value never occur in these columns
  and are read as empty here.
\<close>

definition valueStr :: "'pos bindings \<Rightarrow> string \<Rightarrow> string" where
  "valueStr q name = (case q name of Some (VStr t) \<Rightarrow> t | _ \<Rightarrow> [])"

text \<open>
  \<^verbatim>\<open>SqlRecord::valueFloat\<close>, for the \<^verbatim>\<open>:heading\<close> column, which always holds a number;
  anything else reads as 0.
\<close>

definition valueFloat :: "'pos bindings \<Rightarrow> string \<Rightarrow> real" where
  "valueFloat q name =
     (case q name of Some (VFloat r) \<Rightarrow> r | Some (VInt i) \<Rightarrow> real_of_int i | _ \<Rightarrow> 0)"

subsection \<open>The session\<close>

datatype Warning =
    InvalidWritingState string
  | InvalidIgnoringState string
  | NoRunwayEndForVasi string real
  | NoBoundingRect string
  | NoBoundingRectDetermined string
  | InvalidRunwayCode AirportRowCode
  | InvalidEdgeLight int

record XpWriterContext =
  curFileId :: int
  flagIsAddon :: bool
  flagIs3d :: bool
  localPath :: string
  fileName :: string

text \<open>
  The member variables of the writer, followed by the collaborators it writes to: the
  airport index with its runway ends (by airport identifier and runway end name), the
  rows executed by each insert statement, the progress counter and the warnings logged.

  Positions (\<^verbatim>\<open>atools::geo::Pos\<close>) and rectangles (\<^verbatim>\<open>atools::geo::Rect\<close>) are type
  parameters: the geometry library is not among the sources.
\<close>

record ('pos, 'rect) session =
  airportRect :: 'rect
  longestRunwayCenterPos :: 'pos
  airportPos :: 'pos
  airportDatumPos :: 'pos
  longestRunwayLength :: real
  longestRunwayWidth :: real
  longestRunwayHeading :: real
  longestRunwaySurface :: string
  numRunway :: int
  numSoftRunway :: int
  numWaterRunway :: int
  numHardRunway :: int
  numHelipad :: int
  numLightRunway :: int
  numParkingGate :: int
  numParkingGaRamp :: int
  numParkingCargo :: int
  numParkingMilCargo :: int
  numParkingMilCombat :: int
  numCom :: int
  numStart :: int
  numRunwayEndVasi :: int
  numApron :: int
  numTaxiPath :: int
  numRunwayEndAls :: int
  numParking :: int
  airportClosed :: bool
  airportAltitude :: real
  curHelipadStartNumber :: int
  airportRowCode :: AirportRowCode
  airportIcao :: string
  runwayEndRecords :: "'pos bindings list"
  taxiNodes :: "int \<rightharpoonup> 'pos"
  largestParkingGate :: string
  largestParkingRamp :: string
  hasTower :: bool
  writingAirport :: bool
  ignoringAirport :: bool
  writingPavementBoundary :: bool
  writingPavementHoles :: bool
  writingPavementNewHole :: bool
  writingStartLocation :: bool
  currentPavement :: "'pos XpGeometry"
  curAirportId :: int
  curApronId :: int
  curParkingId :: int
  curAirportFileId :: int
  curRunwayEndId :: int
  curStartId :: int
  insertAirportQuery :: "'pos bindings"
  insertRunwayQuery :: "'pos bindings"
  insertStartQuery :: "'pos bindings"
  insertParkingQuery :: "'pos bindings"
  insertApronQuery :: "'pos bindings"
  insertAirportFileQuery :: "'pos bindings"
  airportIndex :: "string \<rightharpoonup> int"
  runwayEndIndex :: "string \<times> string \<rightharpoonup> int"
  airportRows :: "'pos bindings list"
  runwayRows :: "'pos bindings list"
  startRows :: "'pos bindings list"
  runwayEndRows :: "'pos bindings list"
  parkingRows :: "'pos bindings list"
  apronRows :: "'pos bindings list"
  airportFileRows :: "'pos bindings list"
  numAirportsProgress :: int
  warnings :: "Warning list"

subsection \<open>Collaborators\<close>

text \<open>
  Everything the writer calls that is defined outside the sources at hand, taken as a
  parameter: Qt's conversions between text and numbers and its case mappings, the helper
  \<^verbatim>\<open>XpWriter::mid\<close>, the casts from integers to enumerations, the geometry library
  (with the distance and the bearing between two positions and the conversion from
  metres to feet), the registration of a runway end in the airport index, the empty
  record of the table \<^verbatim>\<open>runway_end\<close> that the constructor reads from the database, the
  name utilities of \<^verbatim>\<open>atools::fs::util\<close>, the inclusion filter, the rating function and
  the magnetic declination reader. \<open>binderBody\<close> is the body, after the
  \<^verbatim>\<open>ignoringAirport\<close> guard, of each binder that is not embedded below.
\<close>

record ('pos, 'rect) collaborators =
  toInt :: "string \<Rightarrow> int"
  toFloat :: "string \<Rightarrow> real"
  toLower :: "string \<Rightarrow> string"
  toUpper :: "string \<Rightarrow> string"
  mid :: "string list \<Rightarrow> nat \<Rightarrow> string"
  surfaceOf :: "int \<Rightarrow> Surface"
  approachIndicatorOf :: "int \<Rightarrow> ApproachIndicator"
  markingOf :: "int \<Rightarrow> Marking"
  approachLightOf :: "int \<Rightarrow> ApproachLight"
  mkPos :: "real \<Rightarrow> real \<Rightarrow> 'pos"
  nullPos :: 'pos
  posIsValid :: "'pos \<Rightarrow> bool"
  getLonX :: "'pos \<Rightarrow> real"
  getLatY :: "'pos \<Rightarrow> real"
  nullRect :: 'rect
  rectOfPos :: "'pos \<Rightarrow> 'rect"
  rectExtend :: "'rect \<Rightarrow> 'pos \<Rightarrow> 'rect"
  rectIsValid :: "'rect \<Rightarrow> bool"
  rectInflate :: "'rect \<Rightarrow> real \<Rightarrow> real \<Rightarrow> 'rect"
  rectContains :: "'rect \<Rightarrow> 'pos \<Rightarrow> bool"
  rectCenter :: "'rect \<Rightarrow> 'pos"
  rectIsPoint :: "'rect \<Rightarrow> bool"
  rectTopLeft :: "'rect \<Rightarrow> 'pos"
  rectBottomRight :: "'rect \<Rightarrow> 'pos"
  POS_EPSILON_100M :: real
  distanceMeterTo :: "'pos \<Rightarrow> 'pos \<Rightarrow> real"
  angleDegTo :: "'pos \<Rightarrow> 'pos \<Rightarrow> real"
  interpolate :: "'pos \<Rightarrow> 'pos \<Rightarrow> real \<Rightarrow> real \<Rightarrow> 'pos"
  meterToFeet :: "real \<Rightarrow> real"
  addRunwayEnd ::
    "(string \<times> string \<rightharpoonup> int) \<Rightarrow> string \<Rightarrow> string \<Rightarrow> int \<Rightarrow> (string \<times> string \<rightharpoonup> int)"
  runwayEndRecord :: "'pos bindings"
  isNameClosed :: "string \<Rightarrow> bool"
  isNameMilitary :: "string \<Rightarrow> bool"
  capAirportName :: "string \<Rightarrow> string"
  removeNameIndicator :: "string \<Rightarrow> string"
  isIncludedAirportIdent :: "string \<Rightarrow> bool"
  calculateAirportRatingXp :: "bool \<Rightarrow> bool \<Rightarrow> bool \<Rightarrow> int \<Rightarrow> int \<Rightarrow> int \<Rightarrow> int"
  getMagVar :: "'pos \<Rightarrow> real"
  binderBody ::
    "AirportRowCode \<Rightarrow> string list \<Rightarrow> ('pos, 'rect) session \<Rightarrow> ('pos, 'rect) session"

text \<open>
  Modelled from the spec: the airport index (\<^verbatim>\<open>AirportIndex::addAirport\<close>) is not among
  the sources. The spec treats it as ``a black-box key to id map'' with
  \<^verbatim>\<open>addAirport(id) -> bool\<close>: the identifier is looked up and inserted, and the result is
  false when it is already present.
\<close>

definition addAirport :: "(string \<rightharpoonup> int) \<Rightarrow> string \<Rightarrow> int \<Rightarrow> bool \<times> (string \<rightharpoonup> int)" where
  "addAirport idx icao airportId =
     (if icao \<in> dom idx then (False, idx) else (True, idx(icao \<mapsto> airportId)))"

text \<open>The check that opens most binders: a warning when no airport is being written.\<close>

definition warnUnlessWriting :: "string \<Rightarrow> ('pos, 'rect) session \<Rightarrow> ('pos, 'rect) session" where
  "warnUnlessWriting fn s =
     (if \<not> writingAirport s then s\<lparr>warnings := warnings s @ [InvalidWritingState fn]\<rparr> else s)"

subsection \<open>Pavement\<close>

definition bindPavement ::
  "('pos, 'rect) collaborators \<Rightarrow> string list \<Rightarrow> ('pos, 'rect) session \<Rightarrow> ('pos, 'rect) session" where
  "bindPavement env line s =
     (if ignoringAirport s then s
      else
        let s1 = warnUnlessWriting ''bindPavement'' s;
            s2 = s1\<lparr>currentPavement := clearGeometry,
                    writingPavementBoundary := True,
                    writingPavementHoles := False,
                    writingPavementNewHole := False,
                    numApron := numApron s1 + 1,
                    curApronId := curApronId s1 + 1\<rparr>
        in s2\<lparr>insertApronQuery := (insertApronQuery s2)
               ('':apron_id'' \<mapsto> VInt (curApronId s2),
                '':airport_id'' \<mapsto> VInt (curAirportId s2),
                '':is_draw_surface'' \<mapsto> VInt 1,
                '':is_draw_detail'' \<mapsto> VInt 1,
                '':surface'' \<mapsto>
                   VStr (surfaceToDb (surfaceOf env (toInt env (at_field line p_SURFACE)))))\<rparr>)"

definition isCloseCode :: "AirportRowCode \<Rightarrow> bool" where
  "isCloseCode rowCode = (rowCode = NODE_CLOSE \<or> rowCode = NODE_AND_CONTROL_POINT_CLOSE)"

definition nodeOf :: "('pos, 'rect) collaborators \<Rightarrow> string list \<Rightarrow> 'pos" where
  "nodeOf env line = mkPos env (toFloat env (at_field line n_LONX)) (toFloat env (at_field line n_LATY))"

definition controlOf :: "('pos, 'rect) collaborators \<Rightarrow> AirportRowCode \<Rightarrow> string list \<Rightarrow> 'pos" where
  "controlOf env rowCode line =
     (if rowCode = NODE_AND_CONTROL_POINT \<or> rowCode = NODE_AND_CONTROL_POINT_CLOSE
      then mkPos env (toFloat env (at_field line n_CTRL_LONX)) (toFloat env (at_field line n_CTRL_LATY))
      else nullPos env)"

text \<open>
  \<^verbatim>\<open>bindPavementNode\<close>. The result is \<open>None\<close> only where the polygon refuses the node
  (a hole node with no hole to take it).
\<close>

definition bindPavementNode ::
  "('pos, 'rect) collaborators \<Rightarrow> string list \<Rightarrow> AirportRowCode \<Rightarrow> ('pos, 'rect) session
     \<Rightarrow> ('pos, 'rect) session option" where
  "bindPavementNode env line rowCode s =
     (if ignoringAirport s then Some s
      else
        let s1 = warnUnlessWriting ''bindPavementNode'' s;
            node = nodeOf env line;
            s2 = s1\<lparr>airportRect := rectExtend env (airportRect s1) node\<rparr>;
            control = controlOf env rowCode line;
            added =
              (if writingPavementBoundary s2
               then Some (addBoundaryNode node control (currentPavement s2))
               else if writingPavementHoles s2
               then addHoleNode node control (writingPavementNewHole s2) (currentPavement s2)
               else Some (currentPavement s2))
        in case added of
             None \<Rightarrow> None
           | Some g \<Rightarrow>
               let s3 = s2\<lparr>currentPavement := g, writingPavementNewHole := False\<rparr>
               in if isCloseCode rowCode
                  then
                    let s4 = (if writingPavementBoundary s3
                              then s3\<lparr>writingPavementBoundary := False,
                                      writingPavementHoles := True\<rparr>
                              else s3)
                    in Some (if writingPavementHoles s4
                             then s4\<lparr>writingPavementNewHole := True\<rparr> else s4)
                  else Some s3)"

definition finishPavement :: "('pos, 'rect) session \<Rightarrow> ('pos, 'rect) session" where
  "finishPavement s =
     (if ignoringAirport s then s
      else if writingPavementBoundary s \<or> writingPavementHoles s
      then
        let s1 = warnUnlessWriting ''finishPavement'' s;
            q = (insertApronQuery s1)('':geometry'' \<mapsto> VGeometry (currentPavement s1))
        in s1\<lparr>insertApronQuery := q,
               apronRows := apronRows s1 @ [q],
               writingPavementBoundary := False,
               writingPavementHoles := False,
               writingPavementNewHole := False\<rparr>
      else s)"

subsection \<open>Approach indicators\<close>

text \<open>The first loop of \<^verbatim>\<open>bindVasi\<close>: the index of the first record with the given name.\<close>

fun findByName :: "'pos bindings list \<Rightarrow> string \<Rightarrow> nat \<Rightarrow> nat option" where
  "findByName [] rwName i = None"
| "findByName (rec # recs) rwName i =
     (if valueStr rec '':name'' = rwName then Some i else findByName recs rwName (Suc i))"

text \<open>
  The second loop: the state is the index of the best record so far and \<^verbatim>\<open>bestAngle\<close>.
\<close>

fun findByAngle ::
  "'pos bindings list \<Rightarrow> real \<Rightarrow> nat \<Rightarrow> nat option \<times> real \<Rightarrow> nat option \<times> real" where
  "findByAngle [] orientation i best = best"
| "findByAngle (rec # recs) orientation i (bestRunwayEnd, bestAngle) =
     (let diff = \<bar>valueFloat rec '':heading'' - orientation\<bar>
      in if diff < 10 \<and> diff < \<bar>bestAngle - orientation\<bar>
         then findByAngle recs orientation (Suc i) (Some i, valueFloat rec '':heading'')
         else findByAngle recs orientation (Suc i) (bestRunwayEnd, bestAngle))"

text \<open>\<^verbatim>\<open>std::numeric_limits<float>::max()\<close>, the largest finite binary32 number.\<close>

definition FLT_MAX :: real where
  "FLT_MAX = (2 ^ 24 - 1) * 2 ^ 104"

definition bindVasi ::
  "('pos, 'rect) collaborators \<Rightarrow> string list \<Rightarrow> ('pos, 'rect) session \<Rightarrow> ('pos, 'rect) session" where
  "bindVasi env line s =
     (if ignoringAirport s then s
      else
        let s1 = warnUnlessWriting ''bindVasi'' s;
            type = approachIndicatorOf env (toInt env (at_field line v_TYPE))
        in if type = NO_APPR_INDICATOR \<or> type = RUNWAY_GUARD then s1
           else
             let rwName = line_value line v_RUNWAY;
                 orientation = toFloat env (at_field line v_ORIENT);
                 byName = (if rwName \<noteq> [] then findByName (runwayEndRecords s1) rwName 0
                           else None);
                 bestRunwayEnd =
                   (if byName = None
                    then fst (findByAngle (runwayEndRecords s1) orientation 0
                                (None, FLT_MAX / 4))
                    else byName)
             in case bestRunwayEnd of
                  Some i \<Rightarrow>
                    s1\<lparr>numRunwayEndVasi := numRunwayEndVasi s1 + 1,
                       runwayEndRecords := (runwayEndRecords s1)
                         [i := (runwayEndRecords s1 ! i)
                            ('':left_vasi_type'' \<mapsto> VStr (approachIndicatorToDb type),
                             '':left_vasi_pitch'' \<mapsto> VFloat (toFloat env (at_field line v_ANGLE)),
                             '':right_vasi_type'' \<mapsto> VStr ''UNKN'',
                             '':right_vasi_pitch'' \<mapsto> VFloat 0)]\<rparr>
                | None \<Rightarrow>
                    s1\<lparr>warnings := warnings s1 @ [NoRunwayEndForVasi rwName orientation]\<rparr>)"

subsection \<open>Parking stands\<close>

definition writeStartupLocation ::
  "('pos, 'rect) collaborators \<Rightarrow> string list \<Rightarrow> ('pos, 'rect) session \<Rightarrow> ('pos, 'rect) session" where
  "writeStartupLocation env line s =
     (if ignoringAirport s then s
      else
        let s1 = warnUnlessWriting ''writeStartupLocation'' s;
            s2 = s1\<lparr>writingStartLocation := True,
                    numParking := numParking s1 + 1,
                    curParkingId := curParkingId s1 + 1\<rparr>;
            pos = mkPos env (toFloat env (at_field line sl_LONX)) (toFloat env (at_field line sl_LATY));
            s3 = s2\<lparr>airportRect := rectExtend env (airportRect s2) pos\<rparr>;
            q1 = (insertParkingQuery s3)
                   ('':parking_id'' \<mapsto> VInt (curParkingId s3),
                    '':airport_id'' \<mapsto> VInt (curAirportId s3),
                    '':laty'' \<mapsto> VFloat (getLatY env pos),
                    '':lonx'' \<mapsto> VFloat (getLonX env pos),
                    '':heading'' \<mapsto> VFloat (toFloat env (at_field line sl_HEADING)),
                    '':number'' \<mapsto> VInt (- 1),
                    '':radius'' \<mapsto> VFloat 50,
                    '':airline_codes'' \<mapsto> VNull);
            name = mid env line sl_NAME;
            isGas = (contains (toLower env name) ''avgas'' \<or> contains (toLower env name) ''mogas''
                     \<or> contains (toLower env name) ''gas-station'');
            isJet = contains (toLower env name) ''jetfuel'';
            isFuel = contains (toLower env name) ''fuel'';
            hasFuel = (isGas \<or> isJet \<or> isFuel);
            a1 = (if isGas then (insertAirportQuery s3)('':has_avgas'' \<mapsto> VInt 1)
                  else insertAirportQuery s3);
            a2 = (if isJet then a1('':has_jetfuel'' \<mapsto> VInt 1) else a1);
            a3 = (if isFuel then a2('':has_jetfuel'' \<mapsto> VInt 1, '':has_avgas'' \<mapsto> VInt 1) else a2);
            q2 = q1('':name'' \<mapsto> VStr name, '':has_jetway'' \<mapsto> VInt 0);
            q3 = (if hasFuel then q2('':type'' \<mapsto> VStr ''FUEL'')
                  else
                    let type = at_field line sl_TYPE;
                        q = (if type = ''gate'' then q2('':type'' \<mapsto> VStr ''G'')
                             else if type = ''hangar'' then q2('':type'' \<mapsto> VStr ''H'')
                             else if type = ''tie-down'' then q2('':type'' \<mapsto> VStr ''T'')
                             else q2)
                    in q('':type'' \<mapsto> VStr []))
        in s3\<lparr>insertAirportQuery := a3, insertParkingQuery := q3\<rparr>)"

text \<open>
  The table inside \<^verbatim>\<open>writeStartupLocationMetadata\<close> that turns the ICAO width code into
  the local variables \<^verbatim>\<open>radius\<close> and \<^verbatim>\<open>sizeType\<close>, which start as 10 and \<^verbatim>\<open>"S"\<close>.
\<close>

definition widthCodeRadiusSize :: "string \<Rightarrow> real \<times> string" where
  "widthCodeRadiusSize widthCode =
     (if widthCode = ''A'' then (25, ''S'')
      else if widthCode = ''B'' then (40, ''S'')
      else if widthCode = ''C'' then (60, ''M'')
      else if widthCode = ''D'' then (80, ''M'')
      else if widthCode = ''E'' then (100, ''H'')
      else if widthCode = ''F'' then (130, ''H'')
      else (10, ''S''))"

definition writeStartupLocationMetadata ::
  "('pos, 'rect) collaborators \<Rightarrow> string list \<Rightarrow> ('pos, 'rect) session \<Rightarrow> ('pos, 'rect) session" where
  "writeStartupLocationMetadata env line s =
     (if ignoringAirport s then s
      else
        let s1 = warnUnlessWriting ''writeStartupLocation'' s;
            isFuel = (valueStr (insertParkingQuery s1) '':type'' = ''FUEL'');
            ops = line_value line sm_OPTYPE;
            q1 = (if \<not> isFuel
                  then (if ops = ''general_aviation''
                        then (insertParkingQuery s1)('':type'' \<mapsto> VStr ''RGA'')
                        else if ops = ''cargo''
                        then (insertParkingQuery s1)('':type'' \<mapsto> VStr ''RC'')
                        else if ops = ''military''
                        then (insertParkingQuery s1)('':type'' \<mapsto> VStr ''RM'')
                        else insertParkingQuery s1)
                  else insertParkingQuery s1);
            q2 = (if length line > sm_AIRLINE
                  then q1('':airline_codes'' \<mapsto> VStr (toUpper env (line_value line sm_AIRLINE)))
                  else q1);
            (radius, sizeType) = widthCodeRadiusSize (line_value line sm_WIDTH);
            q3 = q2('':radius'' \<mapsto> VFloat radius);
            q4 = (if \<not> isFuel
                  then
                    let type = valueStr q3 '':type''
                    in if type = ''G'' \<or> type = ''RGA''
                       then q3('':type'' \<mapsto> VStr (type @ sizeType)) else q3
                  else q3)
        in s1\<lparr>insertParkingQuery := q4\<rparr>)"

definition compareGate :: "string \<Rightarrow> string \<Rightarrow> int" where
  "compareGate gate1 gate2 =
     (if gate1 \<noteq> gate2
      then (if gate1 = ''GH'' then 1
            else if gate2 = ''GH'' then - 1
            else if gate1 = ''GS'' then - 1
            else if gate2 = ''GS'' then 1
            else 0)
      else 0)"

definition compareRamp :: "string \<Rightarrow> string \<Rightarrow> int" where
  "compareRamp ramp1 ramp2 =
     (if ramp1 \<noteq> ramp2
      then (if ramp1 = ''RGAL'' then 1
            else if ramp2 = ''RGAL'' then - 1
            else if ramp1 = ''RGAS'' then - 1
            else if ramp2 = ''RGAS'' then 1
            else 0)
      else 0)"

definition finishStartupLocation :: "('pos, 'rect) session \<Rightarrow> ('pos, 'rect) session" where
  "finishStartupLocation s =
     (if writingStartLocation s
      then
        let type = valueStr (insertParkingQuery s) '':type'';
            s1 = (if startsWith type ''G''
                  then s\<lparr>numParkingGate := numParkingGate s + 1,
                         largestParkingGate :=
                           (if largestParkingGate s = [] \<or> compareGate (largestParkingGate s) type > 0
                            then type else largestParkingGate s)\<rparr>
                  else s);
            s2 = (if startsWith type ''RGA''
                  then s1\<lparr>numParkingGaRamp := numParkingGaRamp s1 + 1,
                          largestParkingRamp :=
                            (if largestParkingRamp s1 = [] \<or> compareRamp (largestParkingRamp s1) type > 0
                             then type else largestParkingRamp s1)\<rparr>
                  else s1);
            s3 = (if startsWith type ''RC''
                  then s2\<lparr>numParkingCargo := numParkingCargo s2 + 1\<rparr> else s2);
            s4 = (if startsWith type ''RMC''
                  then s3\<lparr>numParkingMilCombat := numParkingMilCombat s3 + 1,
                          numParkingMilCargo := numParkingMilCargo s3 + 1\<rparr>
                  else s3)
        in s4\<lparr>insertAirportQuery := (insertAirportQuery s4)
                 ('':largest_parking_ramp'' \<mapsto> VStr (largestParkingRamp s4),
                  '':largest_parking_gate'' \<mapsto> VStr (largestParkingGate s4)),
               parkingRows := parkingRows s4 @ [insertParkingQuery s4],
               insertParkingQuery := Map.empty,
               writingStartLocation := False\<rparr>
      else s)"

subsection \<open>Airports\<close>

definition writeAirportFile :: "string \<Rightarrow> int \<Rightarrow> ('pos, 'rect) session \<Rightarrow> ('pos, 'rect) session" where
  "writeAirportFile icao fileId s =
     (let s1 = s\<lparr>curAirportFileId := curAirportFileId s - 1\<rparr>;
          q = (insertAirportFileQuery s1)
                ('':airport_file_id'' \<mapsto> VInt (curAirportFileId s1),
                 '':file_id'' \<mapsto> VInt fileId,
                 '':ident'' \<mapsto> VStr icao)
      in s1\<lparr>insertAirportFileQuery := q, airportFileRows := airportFileRows s1 @ [q]\<rparr>)"

definition bindAirport ::
  "('pos, 'rect) collaborators \<Rightarrow> XpWriterContext \<Rightarrow> string list \<Rightarrow> AirportRowCode
     \<Rightarrow> ('pos, 'rect) session \<Rightarrow> ('pos, 'rect) session" where
  "bindAirport env ctx line rowCode s =
     (let s1 = (if writingAirport s
                then s\<lparr>warnings := warnings s @ [InvalidWritingState ''bindAirport'']\<rparr> else s);
          s2 = (if ignoringAirport s1
                then s1\<lparr>warnings := warnings s1 @ [InvalidIgnoringState ''bindAirport'']\<rparr> else s1);
          airportId = curAirportId s2 + 1;
          s3 = s2\<lparr>curAirportId := airportId, airportIcao := line_value line ap_ICAO\<rparr>;
          s4 = writeAirportFile (airportIcao s3) (curFileId ctx) s3;
          (added, idx) = addAirport (airportIndex s4) (airportIcao s4) airportId;
          s5 = s4\<lparr>airportIndex := idx\<rparr>
      in if \<not> added \<or> \<not> isIncludedAirportIdent env (airportIcao s5)
         then s5\<lparr>ignoringAirport := True\<rparr>
         else
           let name0 = mid env line ap_NAME;
               closed = isNameClosed env name0;
               name1 = removeNameIndicator env name0;
               isMil = isNameMilitary env name1;
               name2 = capAirportName env name1;
               s6 = s5\<lparr>writingAirport := True,
                       airportRowCode := rowCode,
                       airportAltitude := toFloat env (line_value line ap_ELEVATION),
                       airportClosed := closed\<rparr>
           in s6\<lparr>insertAirportQuery := (insertAirportQuery s6)
                    ('':airport_id'' \<mapsto> VInt airportId,
                     '':file_id'' \<mapsto> VInt (curFileId ctx),
                     '':ident'' \<mapsto> VStr (airportIcao s6),
                     '':name'' \<mapsto> VStr name2,
                     '':fuel_flags'' \<mapsto> VInt 0,
                     '':has_tower_object'' \<mapsto> VInt 0,
                     '':is_closed'' \<mapsto> VBool (airportClosed s6),
                     '':is_military'' \<mapsto> VBool isMil,
                     '':is_addon'' \<mapsto> VBool (flagIsAddon ctx),
                     '':num_boundary_fence'' \<mapsto> VInt 0,
                     '':num_approach'' \<mapsto> VInt 0,
                     '':num_runway_end_closed'' \<mapsto> VInt 0,
                     '':num_jetway'' \<mapsto> VInt 0,
                     '':scenery_local_path'' \<mapsto> VStr (localPath ctx),
                     '':bgl_filename'' \<mapsto> VStr (fileName ctx),
                     '':altitude'' \<mapsto> VFloat (airportAltitude s6),
                     '':has_jetfuel'' \<mapsto> VInt 0,
                     '':has_avgas'' \<mapsto> VInt 0)\<rparr>)"

text \<open>
  \<^verbatim>\<open>reset\<close> clears the per-airport members. The id counters, the bound values of the
  statements, the polygon in \<^verbatim>\<open>currentPavement\<close>, the airport index and everything
  already written are left as they are.
\<close>

definition reset :: "('pos, 'rect) collaborators \<Rightarrow> ('pos, 'rect) session \<Rightarrow> ('pos, 'rect) session" where
  "reset env s =
     s\<lparr>airportRect := nullRect env,
       longestRunwayCenterPos := nullPos env,
       airportPos := nullPos env,
       airportDatumPos := nullPos env,
       longestRunwayLength := 0, longestRunwayWidth := 0, longestRunwayHeading := 0,
       longestRunwaySurface := ''UNKNOWN'',
       numRunway := 0, numSoftRunway := 0, numWaterRunway := 0, numHardRunway := 0,
       numHelipad := 0, numLightRunway := 0,
       numParkingGate := 0, numParkingGaRamp := 0, numParkingCargo := 0,
       numParkingMilCargo := 0, numParkingMilCombat := 0,
       numCom := 0, numStart := 0, numRunwayEndVasi := 0, numApron := 0, numTaxiPath := 0,
       numRunwayEndAls := 0, numParking := 0,
       airportClosed := False,
       airportAltitude := 0,
       curHelipadStartNumber := 0,
       airportRowCode := NO_ROWCODE,
       airportIcao := [],
       runwayEndRecords := [],
       taxiNodes := Map.empty,
       largestParkingGate := [],
       largestParkingRamp := [],
       hasTower := False,
       writingAirport := False, ignoringAirport := False,
       writingPavementBoundary := False, writingPavementHoles := False,
       writingPavementNewHole := False, writingStartLocation := False\<rparr>"

text \<open>
  The block of \<^verbatim>\<open>finishAirport\<close> under ``Find the bounding rect'': it settles
  \<^verbatim>\<open>airportRect\<close> and \<^verbatim>\<open>airportPos\<close> from the accumulated rectangle, the datum position
  and the centre of the longest runway.
\<close>

definition resolveBoundingRect ::
  "('pos, 'rect) collaborators \<Rightarrow> ('pos, 'rect) session \<Rightarrow> ('pos, 'rect) session" where
  "resolveBoundingRect env s =
     (if \<not> rectIsValid env (airportRect s)
      then
        let s1 = s\<lparr>warnings := warnings s @ [NoBoundingRect (airportIcao s)]\<rparr>
        in if posIsValid env (airportDatumPos s1)
           then s1\<lparr>airportRect := rectOfPos env (airportDatumPos s1),
                   airportPos := airportDatumPos s1\<rparr>
           else if posIsValid env (longestRunwayCenterPos s1)
           then s1\<lparr>airportRect := rectOfPos env (longestRunwayCenterPos s1),
                   airportPos := longestRunwayCenterPos s1\<rparr>
           else s1\<lparr>warnings := warnings s1 @ [NoBoundingRectDetermined (airportIcao s1)]\<rparr>
      else if posIsValid env (airportDatumPos s)
      then
        let testRect = rectInflate env (airportRect s) (POS_EPSILON_100M env) (POS_EPSILON_100M env)
        in if rectContains env testRect (airportDatumPos s)
           then s\<lparr>airportPos := airportDatumPos s\<rparr>
           else if numRunway s = 1
           then s\<lparr>airportPos := longestRunwayCenterPos s\<rparr>
           else s\<lparr>airportPos := rectCenter env (airportRect s)\<rparr>
      else s)"

definition finishAirport ::
  "('pos, 'rect) collaborators \<Rightarrow> XpWriterContext \<Rightarrow> ('pos, 'rect) session \<Rightarrow> ('pos, 'rect) session" where
  "finishAirport env ctx s =
     reset env
       (if writingAirport s \<and> \<not> ignoringAirport s
        then
          let rating = calculateAirportRatingXp env (flagIsAddon ctx) (flagIs3d ctx) (hasTower s)
                         (numTaxiPath s) (numParking s) (numApron s);
              q1 = (insertAirportQuery s)
                     ('':longest_runway_length'' \<mapsto> VFloat (longestRunwayLength s),
                      '':longest_runway_width'' \<mapsto> VFloat (longestRunwayWidth s),
                      '':longest_runway_heading'' \<mapsto> VFloat (longestRunwayHeading s),
                      '':longest_runway_surface'' \<mapsto> VStr (longestRunwaySurface s),
                      '':num_runways'' \<mapsto> VInt (numSoftRunway s + numWaterRunway s + numHardRunway s),
                      '':num_runway_hard'' \<mapsto> VInt (numHardRunway s),
                      '':num_runway_soft'' \<mapsto> VInt (numSoftRunway s),
                      '':num_runway_water'' \<mapsto> VInt (numWaterRunway s),
                      '':num_runway_light'' \<mapsto> VInt (numLightRunway s),
                      '':num_helipad'' \<mapsto> VInt (numHelipad s),
                      '':num_com'' \<mapsto> VInt (numCom s),
                      '':num_runway_end_als'' \<mapsto> VInt (numRunwayEndAls s),
                      '':num_starts'' \<mapsto> VInt (numStart s),
                      '':num_runway_end_vasi'' \<mapsto> VInt (numRunwayEndVasi s),
                      '':num_apron'' \<mapsto> VInt (numApron s),
                      '':num_taxi_path'' \<mapsto> VInt (numTaxiPath s),
                      '':has_tower_object'' \<mapsto> VBool (hasTower s),
                      '':rating'' \<mapsto> VInt rating,
                      '':is_3d'' \<mapsto> VBool (flagIs3d ctx),
                      '':num_parking_gate'' \<mapsto> VInt (numParkingGate s),
                      '':num_parking_ga_ramp'' \<mapsto> VInt (numParkingGaRamp s),
                      '':num_parking_cargo'' \<mapsto> VInt (numParkingCargo s),
                      '':num_parking_mil_cargo'' \<mapsto> VInt (numParkingMilCargo s),
                      '':num_parking_mil_combat'' \<mapsto> VInt (numParkingMilCombat s));
              s1 = resolveBoundingRect env s;
              s2 = (if rectIsPoint env (airportRect s1)
                    then s1\<lparr>airportRect := rectInflate env (airportRect s1) (1 / 60) (1 / 60)\<rparr>
                    else s1);
              center = (if posIsValid env (airportPos s2) then airportPos s2
                        else rectCenter env (airportRect s2));
              q2 = q1
                     ('':left_lonx'' \<mapsto> VFloat (getLonX env (rectTopLeft env (airportRect s2))),
                      '':top_laty'' \<mapsto> VFloat (getLatY env (rectTopLeft env (airportRect s2))),
                      '':right_lonx'' \<mapsto> VFloat (getLonX env (rectBottomRight env (airportRect s2))),
                      '':bottom_laty'' \<mapsto> VFloat (getLatY env (rectBottomRight env (airportRect s2))),
                      '':lonx'' \<mapsto> VFloat (getLonX env center),
                      '':laty'' \<mapsto> VFloat (getLatY env center),
                      '':mag_var'' \<mapsto> VFloat (getMagVar env center))
          in s2\<lparr>airportRows := airportRows s2 @ [q2],
                 insertAirportQuery := Map.empty,
                 numAirportsProgress := numAirportsProgress s2 + 1,
                 runwayEndRows := runwayEndRows s2 @ runwayEndRecords s2\<rparr>
        else s)"

subsection \<open>Runways\<close>

text \<open>
  Modelled from the spec: \<^verbatim>\<open>atools::geo::opposedCourseDeg\<close> and
  \<^verbatim>\<open>atools::geo::normalizeCourse\<close> are not among the sources. The spec has the secondary
  heading as ``the normalized opposite course'', with headings ``normalized to [0,360)'',
  and as \<^verbatim>\<open>normalize(primary heading + 180)\<close>: the opposite course adds 180 degrees, and
  normalizing takes the course to its representative in [0, 360).
\<close>

definition opposedCourseDeg :: "real \<Rightarrow> real" where
  "opposedCourseDeg courseDegree = courseDegree + 180"

definition normalizeCourse :: "real \<Rightarrow> real" where
  "normalizeCourse courseDegree = courseDegree - 360 * real_of_int \<lfloor>courseDegree / 360\<rfloor>"

text \<open>
  The first block of \<^verbatim>\<open>bindRunway\<close>: positions, names and surface are read at the field
  indexes of the land or of the water variant; for any other row code they stay as
  declared (null positions, empty names, unknown surface).
\<close>

definition runwayPrimaryPos ::
  "('pos, 'rect) collaborators \<Rightarrow> AirportRowCode \<Rightarrow> string list \<Rightarrow> 'pos" where
  "runwayPrimaryPos env rowCode line =
     (if rowCode = LAND_RUNWAY
      then mkPos env (toFloat env (at_field line rw_PRIMARY_LONX))
             (toFloat env (at_field line rw_PRIMARY_LATY))
      else if rowCode = WATER_RUNWAY
      then mkPos env (toFloat env (at_field line rw_WATER_PRIMARY_LONX))
             (toFloat env (at_field line rw_WATER_PRIMARY_LATY))
      else nullPos env)"

definition runwaySecondaryPos ::
  "('pos, 'rect) collaborators \<Rightarrow> AirportRowCode \<Rightarrow> string list \<Rightarrow> 'pos" where
  "runwaySecondaryPos env rowCode line =
     (if rowCode = LAND_RUNWAY
      then mkPos env (toFloat env (at_field line rw_SECONDARY_LONX))
             (toFloat env (at_field line rw_SECONDARY_LATY))
      else if rowCode = WATER_RUNWAY
      then mkPos env (toFloat env (at_field line rw_WATER_SECONDARY_LONX))
             (toFloat env (at_field line rw_WATER_SECONDARY_LATY))
      else nullPos env)"

definition runwayPrimaryName :: "AirportRowCode \<Rightarrow> string list \<Rightarrow> string" where
  "runwayPrimaryName rowCode line =
     (if rowCode = LAND_RUNWAY then at_field line rw_PRIMARY_NUMBER
      else if rowCode = WATER_RUNWAY then at_field line rw_WATER_PRIMARY_NUMBER
      else [])"

definition runwaySecondaryName :: "AirportRowCode \<Rightarrow> string list \<Rightarrow> string" where
  "runwaySecondaryName rowCode line =
     (if rowCode = LAND_RUNWAY then at_field line rw_SECONDARY_NUMBER
      else if rowCode = WATER_RUNWAY then at_field line rw_WATER_SECONDARY_NUMBER
      else [])"

definition runwaySurface ::
  "('pos, 'rect) collaborators \<Rightarrow> AirportRowCode \<Rightarrow> string list \<Rightarrow> Surface" where
  "runwaySurface env rowCode line =
     (if rowCode = LAND_RUNWAY then surfaceOf env (toInt env (at_field line rw_SURFACE))
      else if rowCode = WATER_RUNWAY then WATER
      else UNKNOWN)"

text \<open>
  The bound values of the runway row: everything \<^verbatim>\<open>bindRunway\<close> binds to
  \<^verbatim>\<open>insertRunwayQuery\<close> before it executes the statement.
\<close>

definition runwayBindings ::
  "('pos, 'rect) collaborators \<Rightarrow> string list \<Rightarrow> AirportRowCode \<Rightarrow> 'pos bindings \<Rightarrow> int \<Rightarrow> int
     \<Rightarrow> int \<Rightarrow> real \<Rightarrow> 'pos \<Rightarrow> 'pos \<Rightarrow> 'pos \<Rightarrow> string \<Rightarrow> real \<Rightarrow> real \<Rightarrow> real
     \<Rightarrow> 'pos bindings" where
  "runwayBindings env line rowCode query primRwEndId secRwEndId airportId altitude primaryPos
     secondaryPos center surfaceStr lengthFeet widthFeet primaryHeading =
     (let shoulder = toInt env (at_field line rw_SHOULDER_SURFACE);
          q1 = query
                 ('':runway_id'' \<mapsto> VInt primRwEndId,
                  '':airport_id'' \<mapsto> VInt airportId,
                  '':primary_end_id'' \<mapsto> VInt primRwEndId,
                  '':secondary_end_id'' \<mapsto> VInt secRwEndId,
                  '':surface'' \<mapsto> VStr surfaceStr,
                  '':shoulder'' \<mapsto>
                     (if shoulder = 1 then VStr (surfaceToDb ASPHALT)
                      else if shoulder = 2 then VStr (surfaceToDb CONCRETE)
                      else VNull),
                  '':length'' \<mapsto> VFloat lengthFeet,
                  '':width'' \<mapsto> VFloat widthFeet,
                  '':heading'' \<mapsto> VFloat primaryHeading);
          edgeLights = toInt env (at_field line rw_EDGE_LIGHTS);
          centerLights = toInt env (at_field line rw_CENTER_LIGHTS);
          q2 = (if rowCode = LAND_RUNWAY
                then
                  let qm = q1('':marking_flags'' \<mapsto>
                             VInt (markingToDb (markingOf env (toInt env (at_field line rw_PRIMARY_MARKINGS)))
                                   OR markingToDb (markingOf env (toInt env (at_field line rw_SECONDARY_MARKINGS)))));
                      qe = (if edgeLights = 0 then qm('':edge_light'' \<mapsto> VNull)
                            else if edgeLights = 1 then qm('':edge_light'' \<mapsto> VStr ''L'')
                            else if edgeLights = 2 then qm('':edge_light'' \<mapsto> VStr ''M'')
                            else if edgeLights = 3 then qm('':edge_light'' \<mapsto> VStr ''H'')
                            else qm)
                  in if centerLights = 1 then qe('':center_light'' \<mapsto> VStr ''M'')
                     else qe('':center_light'' \<mapsto> VNull)
                else q1('':marking_flags'' \<mapsto> VInt 0))
      in q2('':pattern_altitude'' \<mapsto> VInt 0,
            '':has_center_red'' \<mapsto> VInt 0,
            '':primary_lonx'' \<mapsto> VFloat (getLonX env primaryPos),
            '':primary_laty'' \<mapsto> VFloat (getLatY env primaryPos),
            '':secondary_lonx'' \<mapsto> VFloat (getLonX env secondaryPos),
            '':secondary_laty'' \<mapsto> VFloat (getLatY env secondaryPos),
            '':altitude'' \<mapsto> VFloat altitude,
            '':lonx'' \<mapsto> VFloat (getLonX env center),
            '':laty'' \<mapsto> VFloat (getLatY env center)))"

text \<open>The block ``Primary end'': the record appended to \<^verbatim>\<open>runwayEndRecords\<close> first.\<close>

definition primaryEndRecord ::
  "('pos, 'rect) collaborators \<Rightarrow> string list \<Rightarrow> AirportRowCode \<Rightarrow> int \<Rightarrow> string \<Rightarrow> 'pos
     \<Rightarrow> real \<Rightarrow> bool \<Rightarrow> 'pos bindings" where
  "primaryEndRecord env line rowCode primRwEndId primaryName primaryPos primaryHeading airportIsClosed =
     (let als = alsToDb (approachLightOf env (toInt env (at_field line rw_PRIMARY_ALS)));
          r1 = (runwayEndRecord env)
                 ('':runway_end_id'' \<mapsto> VInt primRwEndId,
                  '':name'' \<mapsto> VStr primaryName,
                  '':end_type'' \<mapsto> VStr ''P'');
          r2 = (if rowCode = LAND_RUNWAY
                then r1('':offset_threshold'' \<mapsto>
                          VFloat (meterToFeet env (toFloat env (at_field line rw_PRIMARY_DISPLACED_THRESHOLD))),
                        '':blast_pad'' \<mapsto>
                          VFloat (meterToFeet env (toFloat env (at_field line rw_PRIMARY_OVERRUN_BLASTPAD))),
                        '':app_light_system_type'' \<mapsto> (if als \<noteq> [] then VStr als else VNull),
                        '':has_reils'' \<mapsto> VBool (toInt env (at_field line rw_PRIMARY_REIL) > 0),
                        '':has_touchdown_lights'' \<mapsto>
                          VInt (toInt env (at_field line rw_PRIMARY_TDZ_LIGHT)))
                else r1('':offset_threshold'' \<mapsto> VInt 0,
                        '':blast_pad'' \<mapsto> VInt 0,
                        '':app_light_system_type'' \<mapsto> VNull,
                        '':has_reils'' \<mapsto> VInt 0,
                        '':has_touchdown_lights'' \<mapsto> VInt 0))
      in r2('':has_end_lights'' \<mapsto> VInt 0,
            '':num_strobes'' \<mapsto> VInt 0,
            '':overrun'' \<mapsto> VInt 0,
            '':has_closed_markings'' \<mapsto> VBool airportIsClosed,
            '':has_stol_markings'' \<mapsto> VInt 0,
            '':is_takeoff'' \<mapsto> VInt 1,
            '':is_landing'' \<mapsto> VInt 1,
            '':is_pattern'' \<mapsto> VStr ''N'',
            '':heading'' \<mapsto> VFloat primaryHeading,
            '':altitude'' \<mapsto> VNull,
            '':lonx'' \<mapsto> VFloat (getLonX env primaryPos),
            '':laty'' \<mapsto> VFloat (getLatY env primaryPos)))"

text \<open>The block ``Secondary end'': the record appended second.\<close>

definition secondaryEndRecord ::
  "('pos, 'rect) collaborators \<Rightarrow> string list \<Rightarrow> AirportRowCode \<Rightarrow> int \<Rightarrow> string \<Rightarrow> 'pos
     \<Rightarrow> real \<Rightarrow> bool \<Rightarrow> 'pos bindings" where
  "secondaryEndRecord env line rowCode secRwEndId secondaryName secondaryPos secondaryHeading airportIsClosed =
     (let als = alsToDb (approachLightOf env (toInt env (at_field line rw_SECONDARY_ALS)));
          r1 = (runwayEndRecord env)
                 ('':runway_end_id'' \<mapsto> VInt secRwEndId,
                  '':name'' \<mapsto> VStr secondaryName,
                  '':end_type'' \<mapsto> VStr ''S'');
          r2 = (if rowCode = LAND_RUNWAY
                then r1('':offset_threshold'' \<mapsto>
                          VFloat (meterToFeet env (toFloat env (at_field line rw_SECONDARY_DISPLACED_THRESHOLD))),
                        '':blast_pad'' \<mapsto>
                          VFloat (meterToFeet env (toFloat env (at_field line rw_SECONDARY_OVERRUN_BLASTPAD))),
                        '':app_light_system_type'' \<mapsto> (if als \<noteq> [] then VStr als else VNull),
                        '':has_reils'' \<mapsto> VBool (toInt env (at_field line rw_SECONDARY_REIL) > 0),
                        '':has_touchdown_lights'' \<mapsto>
                          VInt (toInt env (at_field line rw_SECONDARY_TDZ_LIGHT)))
                else r1('':offset_threshold'' \<mapsto> VInt 0,
                        '':blast_pad'' \<mapsto> VInt 0,
                        '':app_light_system_type'' \<mapsto> VNull,
                        '':has_reils'' \<mapsto> VInt 0,
                        '':has_touchdown_lights'' \<mapsto> VInt 0))
      in r2('':has_end_lights'' \<mapsto> VInt 0,
            '':num_strobes'' \<mapsto> VInt 0,
            '':overrun'' \<mapsto> VInt 0,
            '':has_closed_markings'' \<mapsto> VBool airportIsClosed,
            '':has_stol_markings'' \<mapsto> VInt 0,
            '':is_takeoff'' \<mapsto> VInt 1,
            '':is_landing'' \<mapsto> VInt 1,
            '':is_pattern'' \<mapsto> VStr ''N'',
            '':heading'' \<mapsto> VFloat secondaryHeading,
            '':altitude'' \<mapsto> VNull,
            '':lonx'' \<mapsto> VFloat (getLonX env secondaryPos),
            '':laty'' \<mapsto> VFloat (getLatY env secondaryPos)))"

text \<open>
  The bound values of the start position that \<^verbatim>\<open>bindRunway\<close> writes for a runway end;
  the second start position binds over the values of the first.
\<close>

definition runwayStartBindings ::
  "('pos, 'rect) collaborators \<Rightarrow> 'pos bindings \<Rightarrow> int \<Rightarrow> int \<Rightarrow> int \<Rightarrow> string \<Rightarrow> 'pos \<Rightarrow> real
     \<Rightarrow> real \<Rightarrow> 'pos bindings" where
  "runwayStartBindings env query startId airportId rwEndId name pos altitude heading =
     query
       ('':start_id'' \<mapsto> VInt startId,
        '':airport_id'' \<mapsto> VInt airportId,
        '':runway_end_id'' \<mapsto> VInt rwEndId,
        '':number'' \<mapsto> VNull,
        '':runway_name'' \<mapsto> VStr name,
        '':laty'' \<mapsto> VFloat (getLatY env pos),
        '':lonx'' \<mapsto> VFloat (getLonX env pos),
        '':type'' \<mapsto> VStr ''R'',
        '':altitude'' \<mapsto> VFloat altitude,
        '':heading'' \<mapsto> VFloat heading)"

text \<open>
  \<^verbatim>\<open>bindRunway\<close>. A statement under a condition is written as an update whose value
  carries the condition.
\<close>

definition bindRunway ::
  "('pos, 'rect) collaborators \<Rightarrow> string list \<Rightarrow> AirportRowCode \<Rightarrow> ('pos, 'rect) session
     \<Rightarrow> ('pos, 'rect) session" where
  "bindRunway env line rowCode s =
     (if ignoringAirport s then s
      else
        let s1 = warnUnlessWriting ''bindRunway'' s;
            primaryPos = runwayPrimaryPos env rowCode line;
            secondaryPos = runwaySecondaryPos env rowCode line;
            primaryName = runwayPrimaryName rowCode line;
            secondaryName = runwaySecondaryName rowCode line;
            surface = runwaySurface env rowCode line;
            s2 = s1\<lparr>warnings := warnings s1
                      @ (if rowCode \<noteq> LAND_RUNWAY \<and> rowCode \<noteq> WATER_RUNWAY
                         then [InvalidRunwayCode rowCode] else [])\<rparr>;
            primRwEndId = curRunwayEndId s2 + 1;
            secRwEndId = curRunwayEndId s2 + 2;
            s3 = s2\<lparr>curRunwayEndId := secRwEndId,
                    runwayEndIndex :=
                      addRunwayEnd env
                        (addRunwayEnd env (runwayEndIndex s2) (airportIcao s2) primaryName primRwEndId)
                        (airportIcao s2) secondaryName secRwEndId\<rparr>;
            lengthMeter = distanceMeterTo env primaryPos secondaryPos;
            lengthFeet = meterToFeet env lengthMeter;
            widthFeet = meterToFeet env (toFloat env (at_field line rw_WIDTH));
            primaryHeading = angleDegTo env primaryPos secondaryPos;
            secondaryHeading = normalizeCourse (opposedCourseDeg primaryHeading);
            center = interpolate env primaryPos secondaryPos lengthMeter (1 / 2);
            s4 = s3\<lparr>airportRect :=
                      rectExtend env (rectExtend env (airportRect s3) primaryPos) secondaryPos,
                    numRunway := numRunway s3 + 1,
                    numHardRunway := (if isSurfaceHard surface then numHardRunway s3 + 1
                                      else numHardRunway s3),
                    numSoftRunway := (if isSurfaceSoft surface then numSoftRunway s3 + 1
                                      else numSoftRunway s3),
                    numWaterRunway := (if isSurfaceWater surface then numWaterRunway s3 + 1
                                       else numWaterRunway s3)\<rparr>;
            surfaceStr = surfaceToDb surface;
            longer = (lengthFeet > longestRunwayLength s4);
            s5 = s4\<lparr>longestRunwayLength := (if longer then lengthFeet else longestRunwayLength s4),
                    longestRunwayWidth := (if longer then widthFeet else longestRunwayWidth s4),
                    longestRunwayHeading := (if longer then primaryHeading else longestRunwayHeading s4),
                    longestRunwaySurface := (if longer then surfaceStr else longestRunwaySurface s4),
                    longestRunwayCenterPos := (if longer then center else longestRunwayCenterPos s4)\<rparr>;
            runwayRow = runwayBindings env line rowCode (insertRunwayQuery s5) primRwEndId secRwEndId
                          (curAirportId s5) (airportAltitude s5) primaryPos secondaryPos center
                          surfaceStr lengthFeet widthFeet primaryHeading;
            edgeLights = toInt env (at_field line rw_EDGE_LIGHTS);
            centerLights = toInt env (at_field line rw_CENTER_LIGHTS);
            s6 = s5\<lparr>warnings := warnings s5
                      @ (if rowCode = LAND_RUNWAY \<and> edgeLights \<noteq> 0 \<and> edgeLights \<noteq> 1
                            \<and> edgeLights \<noteq> 2 \<and> edgeLights \<noteq> 3
                         then [InvalidEdgeLight edgeLights] else []),
                    numLightRunway :=
                      (if rowCode = LAND_RUNWAY \<and> (edgeLights > 0 \<or> centerLights > 0)
                       then numLightRunway s5 + 1 else numLightRunway s5)\<rparr>;
            primaryAls = alsToDb (approachLightOf env (toInt env (at_field line rw_PRIMARY_ALS)));
            s7 = s6\<lparr>numRunwayEndAls :=
                      (if rowCode = LAND_RUNWAY \<and> primaryAls \<noteq> [] then numRunwayEndAls s6 + 1
                       else numRunwayEndAls s6),
                    runwayEndRecords := runwayEndRecords s6
                      @ [primaryEndRecord env line rowCode primRwEndId primaryName primaryPos
                           primaryHeading (airportClosed s6)]\<rparr>;
            secondaryAls = alsToDb (approachLightOf env (toInt env (at_field line rw_SECONDARY_ALS)));
            s8 = s7\<lparr>numRunwayEndAls :=
                      (if rowCode = LAND_RUNWAY \<and> secondaryAls \<noteq> [] then numRunwayEndAls s7 + 1
                       else numRunwayEndAls s7),
                    runwayEndRecords := runwayEndRecords s7
                      @ [secondaryEndRecord env line rowCode secRwEndId secondaryName secondaryPos
                           secondaryHeading (airportClosed s7)]\<rparr>;
            s9 = s8\<lparr>runwayRows := runwayRows s8 @ [runwayRow],
                    insertRunwayQuery := Map.empty\<rparr>;
            start1 = runwayStartBindings env (insertStartQuery s9) (curStartId s9 + 1)
                       (curAirportId s9) primRwEndId primaryName primaryPos (airportAltitude s9)
                       primaryHeading;
            s10 = s9\<lparr>numStart := numStart s9 + 1,
                      curStartId := curStartId s9 + 1,
                      insertStartQuery := start1,
                      startRows := startRows s9 @ [start1]\<rparr>;
            start2 = runwayStartBindings env (insertStartQuery s10) (curStartId s10 + 1)
                       (curAirportId s10) secRwEndId secondaryName secondaryPos (airportAltitude s10)
                       secondaryHeading
        in s10\<lparr>numStart := numStart s10 + 1,
                curStartId := curStartId s10 + 1,
                insertStartQuery := start2,
                startRows := startRows s10 @ [start2]\<rparr>)"

subsection \<open>Dispatch\<close>

text \<open>
  The remaining binders, which no statement below is about, are embedded up to their
  first statement, the \<^verbatim>\<open>ignoringAirport\<close> guard that each of them starts with; what
  follows the guard is the collaborator \<open>binderBody\<close>.
\<close>

definition writeHelipad ::
  "('pos, 'rect) collaborators \<Rightarrow> string list \<Rightarrow> ('pos, 'rect) session \<Rightarrow> ('pos, 'rect) session" where
  "writeHelipad env line s = (if ignoringAirport s then s else binderBody env HELIPAD line s)"

definition bindViewpoint ::
  "('pos, 'rect) collaborators \<Rightarrow> string list \<Rightarrow> ('pos, 'rect) session \<Rightarrow> ('pos, 'rect) session" where
  "bindViewpoint env line s =
     (if ignoringAirport s then s else binderBody env AIRPORT_VIEWPOINT line s)"

definition writeStartup ::
  "('pos, 'rect) collaborators \<Rightarrow> string list \<Rightarrow> ('pos, 'rect) session \<Rightarrow> ('pos, 'rect) session" where
  "writeStartup env line s =
     (if ignoringAirport s then s else binderBody env AEROPLANE_STARTUP_LOCATION line s)"

definition bindTaxiNode ::
  "('pos, 'rect) collaborators \<Rightarrow> string list \<Rightarrow> ('pos, 'rect) session \<Rightarrow> ('pos, 'rect) session" where
  "bindTaxiNode env line s =
     (if ignoringAirport s then s else binderBody env TAXI_ROUTE_NETWORK_NODE line s)"

definition bindTaxiEdge ::
  "('pos, 'rect) collaborators \<Rightarrow> string list \<Rightarrow> ('pos, 'rect) session \<Rightarrow> ('pos, 'rect) session" where
  "bindTaxiEdge env line s =
     (if ignoringAirport s then s else binderBody env TAXI_ROUTE_NETWORK_EDGE line s)"

definition bindMetadata ::
  "('pos, 'rect) collaborators \<Rightarrow> string list \<Rightarrow> ('pos, 'rect) session \<Rightarrow> ('pos, 'rect) session" where
  "bindMetadata env line s =
     (if ignoringAirport s then s else binderBody env METADATA_RECORDS line s)"

definition bindFuel ::
  "('pos, 'rect) collaborators \<Rightarrow> string list \<Rightarrow> ('pos, 'rect) session \<Rightarrow> ('pos, 'rect) session" where
  "bindFuel env line s =
     (if ignoringAirport s then s else binderBody env TRUCK_PARKING_LOCATION line s)"

definition writeCom ::
  "('pos, 'rect) collaborators \<Rightarrow> string list \<Rightarrow> AirportRowCode \<Rightarrow> ('pos, 'rect) session
     \<Rightarrow> ('pos, 'rect) session" where
  "writeCom env line rowCode s = (if ignoringAirport s then s else binderBody env rowCode line s)"

definition isHeaderCode :: "AirportRowCode \<Rightarrow> bool" where
  "isHeaderCode rowCode =
     (rowCode = LAND_AIRPORT_HEADER \<or> rowCode = SEAPLANE_BASE_HEADER \<or> rowCode = HELIPORT_HEADER)"

text \<open>
  \<^verbatim>\<open>write\<close> (a reserved word here, hence \<open>writeLine\<close>): the two flushes that precede
  the \<^verbatim>\<open>switch\<close>, then the \<^verbatim>\<open>switch\<close>. The row code is the first field of the line,
  already cast to the enumeration.
\<close>

definition writeLine ::
  "('pos, 'rect) collaborators \<Rightarrow> XpWriterContext \<Rightarrow> AirportRowCode \<Rightarrow> string list
     \<Rightarrow> ('pos, 'rect) session \<Rightarrow> ('pos, 'rect) session option" where
  "writeLine env ctx rowCode line s =
     (let s1 = (if rowCode \<notin> {PAVEMENT_HEADER, NODE, NODE_AND_CONTROL_POINT, NODE_CLOSE,
                                NODE_AND_CONTROL_POINT_CLOSE}
                then finishPavement s else s);
          s2 = (if rowCode \<noteq> RAMP_START_METADATA then finishStartupLocation s1 else s1)
      in if isHeaderCode rowCode
         then Some (bindAirport env ctx line rowCode (finishAirport env ctx s2))
         else if rowCode = LAND_RUNWAY \<or> rowCode = WATER_RUNWAY
         then Some (bindRunway env line rowCode s2)
         else if rowCode = HELIPAD then Some (writeHelipad env line s2)
         else if rowCode = PAVEMENT_HEADER
         then Some (bindPavement env line (finishPavement s2))
         else if rowCode \<in> {NODE, NODE_AND_CONTROL_POINT, NODE_CLOSE, NODE_AND_CONTROL_POINT_CLOSE}
         then bindPavementNode env line rowCode s2
         else if rowCode = AIRPORT_VIEWPOINT then Some (bindViewpoint env line s2)
         else if rowCode = AEROPLANE_STARTUP_LOCATION then Some (writeStartup env line s2)
         else if rowCode = LIGHTING_OBJECT then Some (bindVasi env line s2)
         else if rowCode = AIRPORT_LOCATION
         then Some (writeStartupLocation env line (finishStartupLocation s2))
         else if rowCode = RAMP_START_METADATA
         then Some (writeStartupLocationMetadata env line s2)
         else if rowCode = TAXI_ROUTE_NETWORK_NODE then Some (bindTaxiNode env line s2)
         else if rowCode = TAXI_ROUTE_NETWORK_EDGE then Some (bindTaxiEdge env line s2)
         else if rowCode = METADATA_RECORDS then Some (bindMetadata env line s2)
         else if rowCode = TRUCK_PARKING_LOCATION \<or> rowCode = TRUCK_DESTINATION_LOCATION
         then Some (bindFuel env line s2)
         else if rowCode \<in> {COM_WEATHER, COM_UNICOM, COM_CLEARANCE, COM_GROUND, COM_TOWER,
                              COM_APPROACH, COM_DEPARTURE}
         then Some (writeCom env line rowCode s2)
         else Some s2)"

definition finish ::
  "('pos, 'rect) collaborators \<Rightarrow> XpWriterContext \<Rightarrow> ('pos, 'rect) session \<Rightarrow> ('pos, 'rect) session" where
  "finish env ctx s = finishAirport env ctx (finishStartupLocation (finishPavement s))"

text \<open>Feeding the rows of a file, in order; a refused row stops the run.\<close>

fun writeAll ::
  "('pos, 'rect) collaborators \<Rightarrow> XpWriterContext \<Rightarrow> (AirportRowCode \<times> string list) list
     \<Rightarrow> ('pos, 'rect) session \<Rightarrow> ('pos, 'rect) session option" where
  "writeAll env ctx [] s = Some s"
| "writeAll env ctx ((rowCode, line) # rows) s =
     (case writeLine env ctx rowCode line s of
        None \<Rightarrow> None
      | Some s' \<Rightarrow> writeAll env ctx rows s')"

subsection \<open>A concrete choice of collaborators\<close>

text \<open>
  The statements below hold for every choice of collaborators. To evaluate the writer on
  concrete rows one choice is fixed here: numbers are plain decimal numerals, the case
  mappings act on the letters A to Z, \<open>mid\<close> joins the fields from an index on with
  blanks, a position is an optional pair of longitude and latitude, and a rectangle an
  optional pair of corners (top left, bottom right).
\<close>

definition lowerChar :: "char \<Rightarrow> char" where
  "lowerChar c =
     (case map_of (zip ''ABCDEFGHIJKLMNOPQRSTUVWXYZ'' ''abcdefghijklmnopqrstuvwxyz'') c of
        Some d \<Rightarrow> d | None \<Rightarrow> c)"

definition upperChar :: "char \<Rightarrow> char" where
  "upperChar c =
     (case map_of (zip ''abcdefghijklmnopqrstuvwxyz'' ''ABCDEFGHIJKLMNOPQRSTUVWXYZ'') c of
        Some d \<Rightarrow> d | None \<Rightarrow> c)"

definition digitValue :: "char \<Rightarrow> int option" where
  "digitValue c = map_of (zip ''0123456789'' [0, 1, 2, 3, 4, 5, 6, 7, 8, 9]) c"

fun decimalValue :: "string \<Rightarrow> int \<Rightarrow> int option" where
  "decimalValue [] acc = Some acc"
| "decimalValue (c # cs) acc =
     (case digitValue c of None \<Rightarrow> None | Some d \<Rightarrow> decimalValue cs (10 * acc + d))"

definition decimalToInt :: "string \<Rightarrow> int" where
  "decimalToInt t = (if t = [] then 0 else case decimalValue t 0 of Some n \<Rightarrow> n | None \<Rightarrow> 0)"

fun joinBlank :: "string list \<Rightarrow> string" where
  "joinBlank [] = []"
| "joinBlank [x] = x"
| "joinBlank (x # y # zs) = x @ '' '' @ joinBlank (y # zs)"

type_synonym plainPos = "(real \<times> real) option"
type_synonym plainRect = "((real \<times> real) \<times> (real \<times> real)) option"

definition plainExtend :: "plainRect \<Rightarrow> plainPos \<Rightarrow> plainRect" where
  "plainExtend r p =
     (case p of
        None \<Rightarrow> r
      | Some (x, y) \<Rightarrow>
          (case r of
             None \<Rightarrow> Some ((x, y), (x, y))
           | Some ((l, t), (rt, b)) \<Rightarrow> Some ((min l x, max t y), (max rt x, min b y))))"

definition plainContains :: "plainRect \<Rightarrow> plainPos \<Rightarrow> bool" where
  "plainContains r p =
     (case (r, p) of
        (Some ((l, t), (rt, b)), Some (x, y)) \<Rightarrow> l \<le> x \<and> x \<le> rt \<and> b \<le> y \<and> y \<le> t
      | _ \<Rightarrow> False)"

text \<open>
  Distance and bearing for positions on one parallel or one meridian only, in degrees
  rather than metres; the bearing is 90 to the east, 270 to the west, 0 to the north and
  180 to the south.
\<close>

definition plainDistance :: "plainPos \<Rightarrow> plainPos \<Rightarrow> real" where
  "plainDistance p q =
     (case (p, q) of
        (Some (x1, y1), Some (x2, y2)) \<Rightarrow> \<bar>x2 - x1\<bar> + \<bar>y2 - y1\<bar>
      | _ \<Rightarrow> 0)"

definition plainAngle :: "plainPos \<Rightarrow> plainPos \<Rightarrow> real" where
  "plainAngle p q =
     (case (p, q) of
        (Some (x1, y1), Some (x2, y2)) \<Rightarrow>
          if x1 < x2 then 90 else if x2 < x1 then 270 else if y2 < y1 then 180 else 0
      | _ \<Rightarrow> 0)"

definition plainInterpolate :: "plainPos \<Rightarrow> plainPos \<Rightarrow> real \<Rightarrow> real \<Rightarrow> plainPos" where
  "plainInterpolate p q distance fraction =
     (case (p, q) of
        (Some (x1, y1), Some (x2, y2)) \<Rightarrow>
          Some (x1 + (x2 - x1) * fraction, y1 + (y2 - y1) * fraction)
      | _ \<Rightarrow> None)"

definition sampleCollaborators :: "(plainPos, plainRect) collaborators" where
  "sampleCollaborators =
     \<lparr>toInt = decimalToInt,
      toFloat = (\<lambda>t. real_of_int (decimalToInt t)),
      toLower = map lowerChar,
      toUpper = map upperChar,
      mid = (\<lambda>line i. joinBlank (drop i line)),
      surfaceOf = (\<lambda>i. if i = 1 then ASPHALT else if i = 2 then CONCRETE else OTHER_SURFACE),
      approachIndicatorOf =
        (\<lambda>i. if i = 0 then NO_APPR_INDICATOR else if i = 1 then VASI else if i = 2 then PAPI_4L
              else if i = 6 then RUNWAY_GUARD else OTHER_INDICATOR),
      markingOf = (\<lambda>i. if i = 0 then NO_MARKING else if i = 1 then VISUAL else OTHER_MARKING),
      approachLightOf = (\<lambda>i. if i = 0 then NO_ALS else if i = 1 then ALSF_I else OTHER_ALS),
      mkPos = (\<lambda>x y. Some (x, y)),
      nullPos = None,
      posIsValid = (\<lambda>p. p \<noteq> None),
      getLonX = (\<lambda>p. case p of Some (x, y) \<Rightarrow> x | None \<Rightarrow> 0),
      getLatY = (\<lambda>p. case p of Some (x, y) \<Rightarrow> y | None \<Rightarrow> 0),
      nullRect = None,
      rectOfPos = (\<lambda>p. case p of Some q \<Rightarrow> Some (q, q) | None \<Rightarrow> None),
      rectExtend = plainExtend,
      rectIsValid = (\<lambda>r. r \<noteq> None),
      rectInflate =
        (\<lambda>r dx dy. case r of
                      Some ((l, t), (rt, b)) \<Rightarrow> Some ((l - dx, t + dy), (rt + dx, b - dy))
                    | None \<Rightarrow> None),
      rectContains = plainContains,
      rectCenter =
        (\<lambda>r. case r of Some ((l, t), (rt, b)) \<Rightarrow> Some ((l + rt) / 2, (t + b) / 2) | None \<Rightarrow> None),
      rectIsPoint = (\<lambda>r. case r of Some (a, b) \<Rightarrow> a = b | None \<Rightarrow> False),
      rectTopLeft = (\<lambda>r. case r of Some (a, b) \<Rightarrow> Some a | None \<Rightarrow> None),
      rectBottomRight = (\<lambda>r. case r of Some (a, b) \<Rightarrow> Some b | None \<Rightarrow> None),
      POS_EPSILON_100M = 1 / 1000,
      distanceMeterTo = plainDistance,
      angleDegTo = plainAngle,
      interpolate = plainInterpolate,
      meterToFeet = (\<lambda>m. m * 3281 / 1000),
      addRunwayEnd = (\<lambda>idx icao name endId. idx((icao, name) \<mapsto> endId)),
      runwayEndRecord = Map.empty,
      isNameClosed = (\<lambda>n. contains (map lowerChar n) ''[x]''),
      isNameMilitary = (\<lambda>n. False),
      capAirportName = (\<lambda>n. n),
      removeNameIndicator = (\<lambda>n. n),
      isIncludedAirportIdent = (\<lambda>icao. True),
      calculateAirportRatingXp = (\<lambda>addon is3d tower taxi parking apron. 0),
      getMagVar = (\<lambda>p. 0),
      binderBody = (\<lambda>rowCode line s. s)\<rparr>"

definition sampleContext :: XpWriterContext where
  "sampleContext =
     \<lparr>curFileId = 1, flagIsAddon = False, flagIs3d = False,
      localPath = ''Custom Scenery'', fileName = ''apt.dat''\<rparr>"

text \<open>A writer that has not read a row yet: nothing in progress, nothing written.\<close>

definition freshSession :: "('pos, 'rect) collaborators \<Rightarrow> ('pos, 'rect) session" where
  "freshSession env =
     \<lparr>airportRect = nullRect env,
      longestRunwayCenterPos = nullPos env,
      airportPos = nullPos env,
      airportDatumPos = nullPos env,
      longestRunwayLength = 0, longestRunwayWidth = 0, longestRunwayHeading = 0,
      longestRunwaySurface = ''UNKNOWN'',
      numRunway = 0, numSoftRunway = 0, numWaterRunway = 0, numHardRunway = 0,
      numHelipad = 0, numLightRunway = 0,
      numParkingGate = 0, numParkingGaRamp = 0, numParkingCargo = 0,
      numParkingMilCargo = 0, numParkingMilCombat = 0,
      numCom = 0, numStart = 0, numRunwayEndVasi = 0, numApron = 0, numTaxiPath = 0,
      numRunwayEndAls = 0, numParking = 0,
      airportClosed = False,
      airportAltitude = 0,
      curHelipadStartNumber = 0,
      airportRowCode = NO_ROWCODE,
      airportIcao = [],
      runwayEndRecords = [],
      taxiNodes = Map.empty,
      largestParkingGate = [],
      largestParkingRamp = [],
      hasTower = False,
      writingAirport = False, ignoringAirport = False,
      writingPavementBoundary = False, writingPavementHoles = False,
      writingPavementNewHole = False, writingStartLocation = False,
      currentPavement = clearGeometry,
      curAirportId = 0, curApronId = 0, curParkingId = 0, curAirportFileId = 0,
      curRunwayEndId = 0, curStartId = 0,
      insertAirportQuery = Map.empty,
      insertRunwayQuery = Map.empty,
      insertStartQuery = Map.empty,
      insertParkingQuery = Map.empty,
      insertApronQuery = Map.empty,
      insertAirportFileQuery = Map.empty,
      airportIndex = Map.empty,
      runwayEndIndex = Map.empty,
      airportRows = [], runwayRows = [], startRows = [],
      runwayEndRows = [], parkingRows = [], apronRows = [],
      airportFileRows = [],
      numAirportsProgress = 0,
      warnings = []\<rparr>"

subsection \<open>Feeding node rows\<close>

text \<open>The node rows of one pavement, handed to \<^verbatim>\<open>bindPavementNode\<close> in order.\<close>

fun bindPavementNodes ::
  "('pos, 'rect) collaborators \<Rightarrow> (AirportRowCode \<times> string list) list
     \<Rightarrow> ('pos, 'rect) session \<Rightarrow> ('pos, 'rect) session option" where
  "bindPavementNodes env [] s = Some s"
| "bindPavementNodes env ((rowCode, line) # rows) s =
     (case bindPavementNode env line rowCode s of
        None \<Rightarrow> None
      | Some s' \<Rightarrow> bindPavementNodes env rows s')"

text \<open>The node and control point that a node row contributes to a ring.\<close>

definition ringNode ::
  "('pos, 'rect) collaborators \<Rightarrow> AirportRowCode \<times> string list \<Rightarrow> 'pos \<times> 'pos" where
  "ringNode env row = (nodeOf env (snd row), controlOf env (fst row) (snd row))"

subsection \<open>Concrete sessions\<close>

text \<open>The fresh writer after the header row of Seattle-Tacoma: an airport is being written.\<close>

definition sampleHeader :: "string list" where
  "sampleHeader = [''1'', ''433'', ''0'', ''0'', ''KSEA'', ''Seattle'', ''Tacoma'', ''Intl'']"

definition sampleAirportSession :: "(plainPos, plainRect) session" where
  "sampleAirportSession =
     bindAirport sampleCollaborators sampleContext sampleHeader LAND_AIRPORT_HEADER
       (freshSession sampleCollaborators)"

text \<open>The same session after a pavement header row and no node row.\<close>

definition samplePavementSession :: "(plainPos, plainRect) session" where
  "samplePavementSession =
     bindPavement sampleCollaborators [''110'', ''1'', ''0.25'', ''0'', ''Apron''] sampleAirportSession"

text \<open>Node rows of a pavement: three boundary nodes, then two nodes of a hole.\<close>

definition sampleBoundaryRows :: "(AirportRowCode \<times> string list) list" where
  "sampleBoundaryRows =
     [(NODE, [''111'', ''47'', ''122'']),
      (NODE_AND_CONTROL_POINT, [''112'', ''48'', ''122'', ''49'', ''123'']),
      (NODE_CLOSE, [''113'', ''48'', ''121''])]"

definition sampleHoleRows :: "(AirportRowCode \<times> string list) list" where
  "sampleHoleRows =
     [(NODE, [''111'', ''47'', ''121'']),
      (NODE_AND_CONTROL_POINT_CLOSE, [''114'', ''48'', ''121'', ''47'', ''120''])]"

text \<open>A startup location row whose name contains ``JetFuel''.\<close>

definition sampleFuelStand :: "string list" where
  "sampleFuelStand = [''1300'', ''47'', ''122'', ''90'', ''misc'', ''jets'', ''JetFuel'', ''Depot'']"

text \<open>
  The concrete session with one runway end of heading 356 on record, and a lighting
  object row of type 2 with orientation 4 that names no runway.
\<close>

definition sampleVasiSession :: "(plainPos, plainRect) session" where
  "sampleVasiSession =
     sampleAirportSession
       \<lparr>runwayEndRecords := [['':name'' \<mapsto> VStr ''36'', '':heading'' \<mapsto> VFloat 356]]\<rparr>"

definition sampleVasiRow :: "string list" where
  "sampleVasiRow = [''21'', ''47'', ''122'', ''2'', ''4'', ''3'']"

text \<open>
  A land runway row, 09/27 along the parallel of latitude 47 from longitude 122 to 123,
  and a water runway row along the same line in the other direction.
\<close>

definition sampleLandRunway :: "string list" where
  "sampleLandRunway =
     [''100'', ''30'', ''1'', ''0'', ''0'', ''1'', ''2'', ''0'',
      ''09'', ''47'', ''122'', ''0'', ''0'', ''1'', ''0'', ''0'', ''0'',
      ''27'', ''47'', ''123'', ''0'', ''0'', ''1'', ''0'', ''0'', ''0'']"


text \<open>
  The concrete session, which has no bounding rectangle yet, with a datum position only,
  and with a centre of the longest runway only.
\<close>

definition sampleDatumOnlySession :: "(plainPos, plainRect) session" where
  "sampleDatumOnlySession = sampleAirportSession\<lparr>airportDatumPos := Some (- 122, 47)\<rparr>"

definition sampleRunwayOnlySession :: "(plainPos, plainRect) session" where
  "sampleRunwayOnlySession =
     sampleAirportSession\<lparr>longestRunwayCenterPos := Some (- 123, 48)\<rparr>"

text \<open>
  The concrete session after the land runway row, which gives it a bounding rectangle,
  one runway and the centre of that runway; then the same with a datum position far
  outside the rectangle, with a datum position on the rectangle, and with the far datum
  position and a runway count of two.
\<close>

definition sampleOneRunwaySession :: "(plainPos, plainRect) session" where
  "sampleOneRunwaySession =
     bindRunway sampleCollaborators sampleLandRunway LAND_RUNWAY sampleAirportSession"

definition sampleFarDatumSession :: "(plainPos, plainRect) session" where
  "sampleFarDatumSession = sampleOneRunwaySession\<lparr>airportDatumPos := Some (10, 10)\<rparr>"

definition sampleNearDatumSession :: "(plainPos, plainRect) session" where
  "sampleNearDatumSession = sampleOneRunwaySession\<lparr>airportDatumPos := Some (123, 47)\<rparr>"

definition sampleTwoRunwaySession :: "(plainPos, plainRect) session" where
  "sampleTwoRunwaySession = sampleFarDatumSession\<lparr>numRunway := 2\<rparr>"

text \<open>Rows of a block that is being ignored; none of them is a header.\<close>

definition sampleIgnoredRows :: "(AirportRowCode \<times> string list) list" where
  "sampleIgnoredRows =
     [(LAND_RUNWAY, [''100'', ''30'', ''1'']),
      (PAVEMENT_HEADER, [''110'', ''1'']),
      (NODE_CLOSE, [''113'', ''48'', ''121'']),
      (AIRPORT_LOCATION, [''1300'', ''47'', ''122'', ''90'', ''gate'', ''jets'', ''Gate'', ''A1'']),
      (RAMP_START_METADATA, [''1301'', ''D'', ''airline'']),
      (LIGHTING_OBJECT, [''21'', ''47'', ''122'', ''2'', ''4'', ''3''])]"

text \<open>
  A startup location row of type \<open>gate\<close> named ``Gate A1'', and a metadata row with
  width code D and operation type \<open>airline\<close>.
\<close>

definition sampleGateStand :: "string list" where
  "sampleGateStand = [''1300'', ''47'', ''122'', ''90'', ''gate'', ''jets'', ''Gate'', ''A1'']"

definition sampleGateMetadata :: "string list" where
  "sampleGateMetadata = [''1301'', ''D'', ''airline'']"

text \<open>The row codes that \<^verbatim>\<open>write\<close> hands to \<^verbatim>\<open>bindPavementNode\<close>.\<close>

definition isNodeCode :: "AirportRowCode \<Rightarrow> bool" where
  "isNodeCode rowCode =
     (rowCode \<in> {NODE, NODE_AND_CONTROL_POINT, NODE_CLOSE, NODE_AND_CONTROL_POINT_CLOSE})"

section \<open>Properties\<close>

subsection \<open>The concrete sessions\<close>

lemma sampleAirportSession_state:
  "\<not> ignoringAirport sampleAirportSession" "writingAirport sampleAirportSession"
  "\<not> writingPavementBoundary sampleAirportSession" "\<not> writingPavementHoles sampleAirportSession"
  "\<not> writingStartLocation sampleAirportSession"
  "apronRows sampleAirportSession = []" "parkingRows sampleAirportSession = []"
  "airportRows sampleAirportSession = []"
  "runwayEndRecords sampleAirportSession = []"
  by (simp_all add: sampleAirportSession_def bindAirport_def writeAirportFile_def addAirport_def
      Let_def freshSession_def sampleCollaborators_def)

subsection \<open>Flushing a pavement\<close>

lemma finishPavement_collecting:
  assumes "\<not> ignoringAirport s" "writingPavementBoundary s \<or> writingPavementHoles s"
  shows "apronRows (finishPavement s)
           = apronRows s @ [(insertApronQuery s)('':geometry'' \<mapsto> VGeometry (currentPavement s))]"
    "\<not> writingPavementBoundary (finishPavement s)" "\<not> writingPavementHoles (finishPavement s)"
    "\<not> writingPavementNewHole (finishPavement s)"
  using assms by (auto simp: finishPavement_def Let_def warnUnlessWriting_def)

lemma finishPavement_idle:
  assumes "ignoringAirport s \<or> (\<not> writingPavementBoundary s \<and> \<not> writingPavementHoles s)"
  shows "finishPavement s = s"
  using assms by (auto simp: finishPavement_def)

lemma bindPavement_start:
  assumes "\<not> ignoringAirport s"
  shows "\<not> ignoringAirport (bindPavement env hdr s)"
    "writingPavementBoundary (bindPavement env hdr s)"
    "currentPavement (bindPavement env hdr s) = XpGeometry [] []"
    "apronRows (bindPavement env hdr s) = apronRows s"
  using assms
  by (simp_all add: bindPavement_def Let_def warnUnlessWriting_def clearGeometry_def)

lemma samplePavementSession_state:
  "\<not> ignoringAirport samplePavementSession" "writingPavementBoundary samplePavementSession"
  "currentPavement samplePavementSession = XpGeometry [] []"
  "apronRows samplePavementSession = []"
  unfolding samplePavementSession_def
  using bindPavement_start [OF sampleAirportSession_state(1)] sampleAirportSession_state(6)
  by simp_all

text \<open>
  Claim C3, as the code has it. The flush is gated on the assembler flags, never on the
  contents of the boundary ring. In a session that is not ignoring, while a polygon is
  being collected (boundary or holes flag set), the flush emits one apron row carrying
  the polygon collected so far, whatever the number of boundary nodes, and resets the
  three flags. When no polygon is being collected, or the session is ignoring, the flush
  changes nothing.
\<close>

theorem finishPavement_flush:
  "(\<not> ignoringAirport s \<and> (writingPavementBoundary s \<or> writingPavementHoles s) \<longrightarrow>
      apronRows (finishPavement s)
        = apronRows s @ [(insertApronQuery s)('':geometry'' \<mapsto> VGeometry (currentPavement s))]
      \<and> \<not> writingPavementBoundary (finishPavement s)
      \<and> \<not> writingPavementHoles (finishPavement s)
      \<and> \<not> writingPavementNewHole (finishPavement s))
   \<and> (ignoringAirport s \<or> (\<not> writingPavementBoundary s \<and> \<not> writingPavementHoles s) \<longrightarrow>
      finishPavement s = s)"
  using finishPavement_collecting [of s] finishPavement_idle [of s] by blast

text \<open>
  Both cases at concrete sessions: right after a pavement header (collecting), and
  right after the airport header (not collecting).
\<close>

theorem finishPavement_flush_witness:
  "\<not> ignoringAirport samplePavementSession
   \<and> (writingPavementBoundary samplePavementSession \<or> writingPavementHoles samplePavementSession)
   \<and> apronRows (finishPavement samplePavementSession)
       = apronRows samplePavementSession
           @ [(insertApronQuery samplePavementSession)
                ('':geometry'' \<mapsto> VGeometry (currentPavement samplePavementSession))]
   \<and> \<not> writingPavementBoundary (finishPavement samplePavementSession)
   \<and> \<not> writingPavementHoles (finishPavement samplePavementSession)
   \<and> \<not> writingPavementNewHole (finishPavement samplePavementSession)
   \<and> \<not> writingPavementBoundary sampleAirportSession
   \<and> \<not> writingPavementHoles sampleAirportSession
   \<and> finishPavement sampleAirportSession = sampleAirportSession"
  using finishPavement_flush [of samplePavementSession] finishPavement_flush [of sampleAirportSession]
    samplePavementSession_state(1,2) sampleAirportSession_state(3,4)
  by simp

text \<open>
  Claim C3 as stated fails: after a pavement header and no node row the boundary ring
  is empty and no apron row has been written, yet the flush writes one.
\<close>

theorem empty_boundary_flush_counterexample:
  "boundary (currentPavement samplePavementSession) = []
   \<and> apronRows samplePavementSession = []
   \<and> length (apronRows (finishPavement samplePavementSession)) = 1"
  using finishPavement_collecting(1) [of samplePavementSession] samplePavementSession_state
  by simp

subsection \<open>Assembling a polygon\<close>

lemma node_preserves:
  assumes "bindPavementNode env line rowCode s = Some s'"
  shows "apronRows s' = apronRows s" "insertApronQuery s' = insertApronQuery s"
    "ignoringAirport s' = ignoringAirport s"
  using assms
  by (auto simp: bindPavementNode_def Let_def warnUnlessWriting_def split: if_splits option.splits)

lemma node_boundary_open:
  assumes "\<not> ignoringAirport s" "writingPavementBoundary s" "\<not> isCloseCode rowCode"
  shows "\<exists>s'. bindPavementNode env line rowCode s = Some s'
           \<and> writingPavementBoundary s'
           \<and> currentPavement s' = addBoundaryNode (nodeOf env line) (controlOf env rowCode line) (currentPavement s)"
  using assms
  by (simp add: bindPavementNode_def Let_def warnUnlessWriting_def)

lemma node_boundary_close:
  assumes "\<not> ignoringAirport s" "writingPavementBoundary s" "isCloseCode rowCode"
  shows "\<exists>s'. bindPavementNode env line rowCode s = Some s'
           \<and> \<not> writingPavementBoundary s' \<and> writingPavementHoles s' \<and> writingPavementNewHole s'
           \<and> currentPavement s' = addBoundaryNode (nodeOf env line) (controlOf env rowCode line) (currentPavement s)"
  using assms
  by (simp add: bindPavementNode_def Let_def warnUnlessWriting_def)

lemma node_hole:
  assumes "\<not> ignoringAirport s" "\<not> writingPavementBoundary s" "writingPavementHoles s"
    "writingPavementNewHole s \<or> holes (currentPavement s) \<noteq> []"
  shows "\<exists>s'. bindPavementNode env line rowCode s = Some s'
           \<and> \<not> writingPavementBoundary s' \<and> writingPavementHoles s'
           \<and> writingPavementNewHole s' = isCloseCode rowCode
           \<and> addHoleNode (nodeOf env line) (controlOf env rowCode line) (writingPavementNewHole s)
                (currentPavement s) = Some (currentPavement s')"
  using assms
  by (auto simp: bindPavementNode_def Let_def warnUnlessWriting_def addHoleNode_def)

lemma nodes_append:
  "bindPavementNodes env (xs @ ys) s =
     (case bindPavementNodes env xs s of None \<Rightarrow> None | Some s' \<Rightarrow> bindPavementNodes env ys s')"
  by (induction xs arbitrary: s) (auto split: option.splits)

lemma nodes_boundary_open:
  assumes "\<not> ignoringAirport s" "writingPavementBoundary s"
    "\<forall>row \<in> set rows. \<not> isCloseCode (fst row)"
  shows "\<exists>s'. bindPavementNodes env rows s = Some s'
           \<and> \<not> ignoringAirport s' \<and> writingPavementBoundary s'
           \<and> currentPavement s' =
               XpGeometry (boundary (currentPavement s) @ map (ringNode env) rows)
                 (holes (currentPavement s))
           \<and> apronRows s' = apronRows s \<and> insertApronQuery s' = insertApronQuery s"
  using assms
proof (induction rows arbitrary: s)
  case Nil
  then show ?case by simp
next
  case (Cons row rows)
  obtain rowCode line where row: "row = (rowCode, line)" by (cases row)
  from Cons.prems row have open_code: "\<not> isCloseCode rowCode" by simp
  from node_boundary_open [OF Cons.prems(1,2) open_code, of env line]
  obtain s1 where s1: "bindPavementNode env line rowCode s = Some s1"
    "writingPavementBoundary s1"
    "currentPavement s1 =
       addBoundaryNode (nodeOf env line) (controlOf env rowCode line) (currentPavement s)"
    by blast
  from node_preserves [OF s1(1)] Cons.prems(1)
  have keep: "apronRows s1 = apronRows s" "insertApronQuery s1 = insertApronQuery s"
    "\<not> ignoringAirport s1" by simp_all
  from Cons.prems(3) have rest: "\<forall>row \<in> set rows. \<not> isCloseCode (fst row)" by simp
  from Cons.IH [OF keep(3) s1(2) rest]
  obtain s' where s': "bindPavementNodes env rows s1 = Some s'"
    "\<not> ignoringAirport s'" "writingPavementBoundary s'"
    "currentPavement s' =
       XpGeometry (boundary (currentPavement s1) @ map (ringNode env) rows)
         (holes (currentPavement s1))"
    "apronRows s' = apronRows s1" "insertApronQuery s' = insertApronQuery s1"
    by blast
  have "bindPavementNodes env (row # rows) s = Some s'"
    using row s1(1) s'(1) by simp
  moreover have "currentPavement s' =
      XpGeometry (boundary (currentPavement s) @ map (ringNode env) (row # rows))
        (holes (currentPavement s))"
    using s'(4) s1(3) row by (simp add: addBoundaryNode_def ringNode_def)
  ultimately show ?case using s'(2,3,5,6) keep(1,2) by simp
qed

lemma nodes_hole_open:
  assumes "\<not> ignoringAirport s" "\<not> writingPavementBoundary s" "writingPavementHoles s"
    "\<not> writingPavementNewHole s" "holes (currentPavement s) = hs0 @ [h]"
    "\<forall>row \<in> set rows. \<not> isCloseCode (fst row)"
  shows "\<exists>s'. bindPavementNodes env rows s = Some s'
           \<and> \<not> ignoringAirport s' \<and> \<not> writingPavementBoundary s' \<and> writingPavementHoles s'
           \<and> \<not> writingPavementNewHole s'
           \<and> currentPavement s' =
               XpGeometry (boundary (currentPavement s)) (hs0 @ [h @ map (ringNode env) rows])
           \<and> apronRows s' = apronRows s \<and> insertApronQuery s' = insertApronQuery s"
  using assms
proof (induction rows arbitrary: s h)
  case Nil
  then show ?case by (cases "currentPavement s") simp
next
  case (Cons row rows)
  obtain rowCode line where row: "row = (rowCode, line)" by (cases row)
  from Cons.prems row have open_code: "\<not> isCloseCode rowCode" by simp
  from Cons.prems(5) have nonempty: "writingPavementNewHole s \<or> holes (currentPavement s) \<noteq> []"
    by simp
  from node_hole [OF Cons.prems(1,2,3) nonempty, of env line rowCode]
  obtain s1 where s1: "bindPavementNode env line rowCode s = Some s1"
    "\<not> writingPavementBoundary s1" "writingPavementHoles s1"
    "writingPavementNewHole s1 = isCloseCode rowCode"
    "addHoleNode (nodeOf env line) (controlOf env rowCode line) (writingPavementNewHole s)
       (currentPavement s) = Some (currentPavement s1)"
    by blast
  from node_preserves [OF s1(1)] Cons.prems(1)
  have keep: "apronRows s1 = apronRows s" "insertApronQuery s1 = insertApronQuery s"
    "\<not> ignoringAirport s1" by simp_all
  from s1(4) open_code have nonew: "\<not> writingPavementNewHole s1" by simp
  from s1(5) Cons.prems(4,5)
  have geo: "currentPavement s1 =
      XpGeometry (boundary (currentPavement s)) (hs0 @ [h @ [ringNode env row]])"
    by (simp add: addHoleNode_def ringNode_def row)
  then have holes1: "holes (currentPavement s1) = hs0 @ [h @ [ringNode env row]]" by simp
  from Cons.prems(6) have rest: "\<forall>row \<in> set rows. \<not> isCloseCode (fst row)" by simp
  from Cons.IH [OF keep(3) s1(2,3) nonew holes1 rest]
  obtain s' where s': "bindPavementNodes env rows s1 = Some s'"
    "\<not> ignoringAirport s'" "\<not> writingPavementBoundary s'" "writingPavementHoles s'"
    "\<not> writingPavementNewHole s'"
    "currentPavement s' =
       XpGeometry (boundary (currentPavement s1))
         (hs0 @ [(h @ [ringNode env row]) @ map (ringNode env) rows])"
    "apronRows s' = apronRows s1" "insertApronQuery s' = insertApronQuery s1"
    by blast
  have "bindPavementNodes env (row # rows) s = Some s'"
    using row s1(1) s'(1) by simp
  moreover have "currentPavement s' =
      XpGeometry (boundary (currentPavement s)) (hs0 @ [h @ map (ringNode env) (row # rows)])"
    using s'(6) geo by simp
  ultimately show ?case using s'(2,3,4,5,7,8) keep(1,2) by simp
qed

lemma nodes_boundary_ring:
  assumes "\<not> ignoringAirport s" "writingPavementBoundary s"
    "\<forall>row \<in> set rows. \<not> isCloseCode (fst row)" "isCloseCode (fst final)"
  shows "\<exists>s'. bindPavementNodes env (rows @ [final]) s = Some s'
           \<and> \<not> ignoringAirport s' \<and> \<not> writingPavementBoundary s' \<and> writingPavementHoles s'
           \<and> writingPavementNewHole s'
           \<and> currentPavement s' =
               XpGeometry (boundary (currentPavement s) @ map (ringNode env) (rows @ [final]))
                 (holes (currentPavement s))
           \<and> apronRows s' = apronRows s \<and> insertApronQuery s' = insertApronQuery s"
proof -
  from nodes_boundary_open [OF assms(1,2,3), of env]
  obtain s1 where s1: "bindPavementNodes env rows s = Some s1"
    "\<not> ignoringAirport s1" "writingPavementBoundary s1"
    "currentPavement s1 =
       XpGeometry (boundary (currentPavement s) @ map (ringNode env) rows)
         (holes (currentPavement s))"
    "apronRows s1 = apronRows s" "insertApronQuery s1 = insertApronQuery s"
    by blast
  obtain rowCode line where final: "final = (rowCode, line)" by (cases final)
  with assms(4) have close_code: "isCloseCode rowCode" by simp
  from node_boundary_close [OF s1(2,3) close_code, of env line]
  obtain s2 where s2: "bindPavementNode env line rowCode s1 = Some s2"
    "\<not> writingPavementBoundary s2" "writingPavementHoles s2" "writingPavementNewHole s2"
    "currentPavement s2 =
       addBoundaryNode (nodeOf env line) (controlOf env rowCode line) (currentPavement s1)"
    by blast
  from node_preserves [OF s2(1)] s1(2)
  have keep: "apronRows s2 = apronRows s1" "insertApronQuery s2 = insertApronQuery s1"
    "\<not> ignoringAirport s2" by simp_all
  have "bindPavementNodes env (rows @ [final]) s = Some s2"
    using s1(1) s2(1) final by (simp add: nodes_append)
  moreover have "currentPavement s2 =
      XpGeometry (boundary (currentPavement s) @ map (ringNode env) (rows @ [final]))
        (holes (currentPavement s))"
    using s2(5) s1(4) final by (simp add: addBoundaryNode_def ringNode_def)
  ultimately show ?thesis using s2(2,3,4) keep s1(5,6) by simp
qed

lemma nodes_hole_ring:
  assumes "\<not> ignoringAirport s" "\<not> writingPavementBoundary s" "writingPavementHoles s"
    "writingPavementNewHole s"
    "\<forall>row \<in> set rows. \<not> isCloseCode (fst row)" "isCloseCode (fst final)"
  shows "\<exists>s'. bindPavementNodes env (rows @ [final]) s = Some s'
           \<and> \<not> ignoringAirport s' \<and> \<not> writingPavementBoundary s' \<and> writingPavementHoles s'
           \<and> writingPavementNewHole s'
           \<and> currentPavement s' =
               XpGeometry (boundary (currentPavement s))
                 (holes (currentPavement s) @ [map (ringNode env) (rows @ [final])])
           \<and> apronRows s' = apronRows s \<and> insertApronQuery s' = insertApronQuery s"
proof -
  obtain first rest where split: "rows @ [final] = first # rest"
    by (cases "rows @ [final]") auto
  obtain rowCode line where first: "first = (rowCode, line)" by (cases first)
  from assms(4) have ok: "writingPavementNewHole s \<or> holes (currentPavement s) \<noteq> []" by simp
  from node_hole [OF assms(1,2,3) ok, of env line rowCode]
  obtain s1 where s1: "bindPavementNode env line rowCode s = Some s1"
    "\<not> writingPavementBoundary s1" "writingPavementHoles s1"
    "writingPavementNewHole s1 = isCloseCode rowCode"
    "addHoleNode (nodeOf env line) (controlOf env rowCode line) (writingPavementNewHole s)
       (currentPavement s) = Some (currentPavement s1)"
    by blast
  from node_preserves [OF s1(1)] assms(1)
  have keep1: "apronRows s1 = apronRows s" "insertApronQuery s1 = insertApronQuery s"
    "\<not> ignoringAirport s1" by simp_all
  from s1(5) assms(4)
  have geo1: "currentPavement s1 =
      XpGeometry (boundary (currentPavement s)) (holes (currentPavement s) @ [[ringNode env first]])"
    by (simp add: addHoleNode_def ringNode_def first)
  show ?thesis
  proof (cases rows)
    case Nil
    with split have "first = final" "rest = []" by simp_all
    with assms(6) first s1(4) have "writingPavementNewHole s1" by simp
    moreover have "bindPavementNodes env (rows @ [final]) s = Some s1"
      using split first s1(1) \<open>rest = []\<close> by simp
    moreover have "map (ringNode env) (rows @ [final]) = [ringNode env first]"
      using Nil \<open>first = final\<close> by simp
    ultimately show ?thesis using s1(2,3) keep1 geo1 by simp
  next
    case (Cons r rs)
    with split have parts: "first = r" "rest = rs @ [final]" by simp_all
    from assms(5) Cons parts(1) first have "\<not> isCloseCode rowCode" by auto
    with s1(4) have nonew: "\<not> writingPavementNewHole s1" by simp
    from assms(5) Cons have rs_open: "\<forall>row \<in> set rs. \<not> isCloseCode (fst row)" by simp
    from geo1 have holes1: "holes (currentPavement s1) = holes (currentPavement s) @ [[ringNode env first]]"
      by simp
    from nodes_hole_open [OF keep1(3) s1(2,3) nonew holes1 rs_open, of env]
    obtain s2 where s2: "bindPavementNodes env rs s1 = Some s2"
      "\<not> ignoringAirport s2" "\<not> writingPavementBoundary s2" "writingPavementHoles s2"
      "\<not> writingPavementNewHole s2"
      "currentPavement s2 =
         XpGeometry (boundary (currentPavement s1))
           (holes (currentPavement s) @ [[ringNode env first] @ map (ringNode env) rs])"
      "apronRows s2 = apronRows s1" "insertApronQuery s2 = insertApronQuery s1"
      by blast
    obtain fc fl where final: "final = (fc, fl)" by (cases final)
    from s2(6) have ok2: "writingPavementNewHole s2 \<or> holes (currentPavement s2) \<noteq> []" by simp
    from node_hole [OF s2(2,3,4) ok2, of env fl fc]
    obtain s3 where s3: "bindPavementNode env fl fc s2 = Some s3"
      "\<not> writingPavementBoundary s3" "writingPavementHoles s3"
      "writingPavementNewHole s3 = isCloseCode fc"
      "addHoleNode (nodeOf env fl) (controlOf env fc fl) (writingPavementNewHole s2)
         (currentPavement s2) = Some (currentPavement s3)"
      by blast
    from node_preserves [OF s3(1)] s2(2)
    have keep3: "apronRows s3 = apronRows s2" "insertApronQuery s3 = insertApronQuery s2"
      "\<not> ignoringAirport s3" by simp_all
    from s3(5) s2(5,6) geo1
    have geo3: "currentPavement s3 =
        XpGeometry (boundary (currentPavement s))
          (holes (currentPavement s) @ [map (ringNode env) (rows @ [final])])"
      by (simp add: addHoleNode_def ringNode_def final Cons parts(1))
    have "bindPavementNodes env (first # rs @ [final]) s = Some s3"
      using first s1(1) s2(1) s3(1) final by (simp add: nodes_append)
    then have "bindPavementNodes env (rows @ [final]) s = Some s3"
      using split parts(2) by simp
    moreover from s3(4) assms(6) final have "writingPavementNewHole s3" by simp
    ultimately show ?thesis using s3(2,3) keep3 s2(7,8) keep1(1,2) geo3 by simp
  qed
qed

lemma polygon_rings:
  assumes "\<not> ignoringAirport s"
    and "bnodes \<noteq> []" and "\<forall>row \<in> set (butlast bnodes). \<not> isCloseCode (fst row)"
    and "isCloseCode (fst (last bnodes))"
    and "hnodes \<noteq> []" and "\<forall>row \<in> set (butlast hnodes). \<not> isCloseCode (fst row)"
    and "isCloseCode (fst (last hnodes))"
  shows "\<exists>s' g. bindPavementNodes env (bnodes @ hnodes) (bindPavement env hdr s) = Some s'
           \<and> apronRows (finishPavement s')
               = apronRows s @ [(insertApronQuery s')('':geometry'' \<mapsto> VGeometry g)]
           \<and> apronRows s' = apronRows s
           \<and> boundary g = map (ringNode env) bnodes
           \<and> holes g = [map (ringNode env) hnodes]
           \<and> length (boundary g) = length bnodes
           \<and> length (holes g) = 1
           \<and> length (hd (holes g)) = length hnodes"
proof -
  let ?s0 = "bindPavement env hdr s"
  note start = bindPavement_start [OF assms(1), of env hdr]
  from assms(2) have bsplit: "bnodes = butlast bnodes @ [last bnodes]" by simp
  from assms(5) have hsplit: "hnodes = butlast hnodes @ [last hnodes]" by simp
  from nodes_boundary_ring [OF start(1,2) assms(3,4), of env]
  obtain s1 where s1: "bindPavementNodes env (butlast bnodes @ [last bnodes]) ?s0 = Some s1"
    "\<not> ignoringAirport s1" "\<not> writingPavementBoundary s1" "writingPavementHoles s1"
    "writingPavementNewHole s1"
    "currentPavement s1 =
       XpGeometry (boundary (currentPavement ?s0) @ map (ringNode env) (butlast bnodes @ [last bnodes]))
         (holes (currentPavement ?s0))"
    "apronRows s1 = apronRows ?s0"
    by blast
  from s1(6) start(3) bsplit
  have geo1: "currentPavement s1 = XpGeometry (map (ringNode env) bnodes) []" by simp
  from nodes_hole_ring [OF s1(2,3,4,5) assms(6,7), of env]
  obtain s2 where s2: "bindPavementNodes env (butlast hnodes @ [last hnodes]) s1 = Some s2"
    "\<not> ignoringAirport s2" "writingPavementHoles s2"
    "currentPavement s2 =
       XpGeometry (boundary (currentPavement s1))
         (holes (currentPavement s1) @ [map (ringNode env) (butlast hnodes @ [last hnodes])])"
    "apronRows s2 = apronRows s1"
    by blast
  from s2(4) geo1 hsplit
  have geo2: "currentPavement s2 = XpGeometry (map (ringNode env) bnodes) [map (ringNode env) hnodes]"
    by simp
  have run: "bindPavementNodes env (bnodes @ hnodes) ?s0 = Some s2"
    using s1(1) s2(1) bsplit hsplit by (simp add: nodes_append)
  have "writingPavementBoundary s2 \<or> writingPavementHoles s2" using s2(3) by simp
  from finishPavement_collecting(1) [OF s2(2) this]
  have flushed: "apronRows (finishPavement s2)
          = apronRows s @ [(insertApronQuery s2)('':geometry'' \<mapsto> VGeometry (currentPavement s2))]"
    using s2(5) s1(7) start(4) by simp
  have kept: "apronRows s2 = apronRows s" using s2(5) s1(7) start(4) by simp
  show ?thesis
    using run geo2 flushed kept by (intro exI [of _ s2] exI [of _ "currentPavement s2"]) simp
qed

subsection \<open>Ranking gates\<close>

text \<open>
  Claim C5. The gate comparator: \<open>GH\<close> against \<open>GS\<close> is 1 and \<open>GS\<close> against \<open>GH\<close> is -1;
  a code against itself is 0; \<open>GH\<close> outranks every other code and \<open>GS\<close> is outranked by
  every other code; two codes that are neither \<open>GH\<close> nor \<open>GS\<close> compare as 0.
\<close>

theorem compareGate_table:
  "compareGate ''GH'' ''GS'' = 1 \<and> compareGate ''GS'' ''GH'' = - 1
   \<and> (\<forall>x. compareGate x x = 0)
   \<and> (\<forall>y. y \<noteq> ''GH'' \<longrightarrow> compareGate ''GH'' y = 1 \<and> compareGate y ''GH'' = - 1)
   \<and> (\<forall>y. y \<notin> {''GH'', ''GS''} \<longrightarrow> compareGate ''GS'' y = - 1 \<and> compareGate y ''GS'' = 1)
   \<and> (\<forall>x y. x \<notin> {''GH'', ''GS''} \<and> y \<notin> {''GH'', ''GS''} \<longrightarrow> compareGate x y = 0)"
  by (simp add: compareGate_def)

text \<open>The comparator at the codes \<open>GM\<close> and \<open>G\<close>.\<close>

theorem compareGate_table_witness:
  "''GM'' \<noteq> ''GH'' \<and> ''GM'' \<notin> {''GH'', ''GS''} \<and> ''G'' \<notin> {''GH'', ''GS''}
   \<and> compareGate ''GH'' ''GM'' = 1 \<and> compareGate ''GM'' ''GH'' = - 1
   \<and> compareGate ''GS'' ''GM'' = - 1 \<and> compareGate ''GM'' ''GS'' = 1
   \<and> compareGate ''G'' ''GM'' = 0"
  using compareGate_table by simp

subsection \<open>Width codes\<close>

lemma metadata_radius:
  "\<not> ignoringAirport s \<Longrightarrow>
   insertParkingQuery (writeStartupLocationMetadata env line s) '':radius''
     = Some (VFloat (fst (widthCodeRadiusSize (line_value line sm_WIDTH))))"
  by (simp add: writeStartupLocationMetadata_def Let_def case_prod_beta)

lemma metadata_type_ga:
  "\<not> ignoringAirport s \<Longrightarrow> line_value line sm_OPTYPE = ''general_aviation'' \<Longrightarrow>
   valueStr (insertParkingQuery s) '':type'' \<noteq> ''FUEL'' \<Longrightarrow>
   insertParkingQuery (writeStartupLocationMetadata env line s) '':type''
     = Some (VStr (''RGA'' @ snd (widthCodeRadiusSize (line_value line sm_WIDTH))))"
  by (simp add: writeStartupLocationMetadata_def Let_def case_prod_beta warnUnlessWriting_def valueStr_def)

lemma widthCode_values:
  "widthCodeRadiusSize ''A'' = (25, ''S'')" "widthCodeRadiusSize ''B'' = (40, ''S'')"
  "widthCodeRadiusSize ''C'' = (60, ''M'')" "widthCodeRadiusSize ''D'' = (80, ''M'')"
  "widthCodeRadiusSize ''E'' = (100, ''H'')" "widthCodeRadiusSize ''F'' = (130, ''H'')"
  by (simp_all add: widthCodeRadiusSize_def)

lemma widthCode_default:
  "w \<notin> {''A'', ''B'', ''C'', ''D'', ''E'', ''F''} \<Longrightarrow> widthCodeRadiusSize w = (10, ''S'')"
  by (simp add: widthCodeRadiusSize_def)

text \<open>
  Claim C6. The width code table: A gives radius 25 and size S, B gives 40 and S, C gives
  60 and M, D gives 80 and M, E gives 100 and H, F gives 130 and H, and any other code
  gives the default 10 and S. The metadata binder binds the radius of the table, and
  appends the size letter of the table to the type of a general aviation ramp.
\<close>

theorem widthCode_table:
  "widthCodeRadiusSize ''A'' = (25, ''S'') \<and> widthCodeRadiusSize ''B'' = (40, ''S'')
   \<and> widthCodeRadiusSize ''C'' = (60, ''M'') \<and> widthCodeRadiusSize ''D'' = (80, ''M'')
   \<and> widthCodeRadiusSize ''E'' = (100, ''H'') \<and> widthCodeRadiusSize ''F'' = (130, ''H'')
   \<and> (\<forall>w. w \<notin> {''A'', ''B'', ''C'', ''D'', ''E'', ''F''} \<longrightarrow> widthCodeRadiusSize w = (10, ''S''))
   \<and> (\<forall>env line s. \<not> ignoringAirport (s :: ('pos, 'rect) session) \<longrightarrow>
         insertParkingQuery (writeStartupLocationMetadata env line s) '':radius''
           = Some (VFloat (fst (widthCodeRadiusSize (line_value line sm_WIDTH)))))
   \<and> (\<forall>env line s. \<not> ignoringAirport (s :: ('pos, 'rect) session)
         \<and> line_value line sm_OPTYPE = ''general_aviation''
         \<and> valueStr (insertParkingQuery s) '':type'' \<noteq> ''FUEL'' \<longrightarrow>
         insertParkingQuery (writeStartupLocationMetadata env line s) '':type''
           = Some (VStr (''RGA'' @ snd (widthCodeRadiusSize (line_value line sm_WIDTH)))))"
proof (intro conjI allI impI)
  fix w :: string
  assume "w \<notin> {''A'', ''B'', ''C'', ''D'', ''E'', ''F''}"
  then show "widthCodeRadiusSize w = (10, ''S'')" by (rule widthCode_default)
next
  fix env :: "('pos, 'rect) collaborators" and line and s :: "('pos, 'rect) session"
  assume "\<not> ignoringAirport s"
  then show "insertParkingQuery (writeStartupLocationMetadata env line s) '':radius''
           = Some (VFloat (fst (widthCodeRadiusSize (line_value line sm_WIDTH))))"
    by (rule metadata_radius)
next
  fix env :: "('pos, 'rect) collaborators" and line and s :: "('pos, 'rect) session"
  assume "\<not> ignoringAirport s \<and> line_value line sm_OPTYPE = ''general_aviation''
         \<and> valueStr (insertParkingQuery s) '':type'' \<noteq> ''FUEL''"
  then show "insertParkingQuery (writeStartupLocationMetadata env line s) '':type''
           = Some (VStr (''RGA'' @ snd (widthCodeRadiusSize (line_value line sm_WIDTH))))"
    by (simp add: metadata_type_ga)
qed (rule widthCode_values)+

text \<open>The unknown width code \<open>Z\<close>, on a metadata row for a general aviation ramp.\<close>

theorem widthCode_table_witness:
  "''Z'' \<notin> {''A'', ''B'', ''C'', ''D'', ''E'', ''F''} \<and> widthCodeRadiusSize ''Z'' = (10, ''S'')
   \<and> \<not> ignoringAirport sampleAirportSession
   \<and> line_value [''1301'', ''C'', ''general_aviation''] sm_OPTYPE = ''general_aviation''
   \<and> valueStr (insertParkingQuery sampleAirportSession) '':type'' \<noteq> ''FUEL''
   \<and> insertParkingQuery
        (writeStartupLocationMetadata sampleCollaborators [''1301'', ''C'', ''general_aviation'']
           sampleAirportSession) '':radius'' = Some (VFloat 60)
   \<and> insertParkingQuery
        (writeStartupLocationMetadata sampleCollaborators [''1301'', ''C'', ''general_aviation'']
           sampleAirportSession) '':type'' = Some (VStr ''RGAM'')"
proof -
  have nofuel: "valueStr (insertParkingQuery sampleAirportSession) '':type'' \<noteq> ''FUEL''"
    by (simp add: sampleAirportSession_def bindAirport_def writeAirportFile_def addAirport_def
        Let_def freshSession_def sampleCollaborators_def valueStr_def)
  have row: "line_value [''1301'', ''C'', ''general_aviation''] sm_OPTYPE = ''general_aviation''"
    "line_value [''1301'', ''C'', ''general_aviation''] sm_WIDTH = ''C''"
    by (simp_all add: line_value_def)
  from widthCode_table [where ?'pos = plainPos and ?'rect = plainRect]
  show ?thesis using nofuel row sampleAirportSession_state(1) by simp
qed

subsection \<open>Fuel stands\<close>

lemma contains_iff: "contains s sub \<longleftrightarrow> (\<exists>ps ss. s = ps @ sub @ ss)"
proof (induction s)
  case Nil
  then show ?case by auto
next
  case (Cons c cs)
  show ?case
  proof
    assume "contains (c # cs) sub"
    then consider "prefix sub (c # cs)" | "contains cs sub" by auto
    then show "\<exists>ps ss. c # cs = ps @ sub @ ss"
    proof cases
      case 1
      then obtain ss where "c # cs = sub @ ss" by (auto simp: prefix_def)
      then have "c # cs = [] @ sub @ ss" by simp
      then show ?thesis by blast
    next
      case 2
      with Cons.IH obtain ps ss where "cs = ps @ sub @ ss" by blast
      then have "c # cs = (c # ps) @ sub @ ss" by simp
      then show ?thesis by blast
    qed
  next
    assume "\<exists>ps ss. c # cs = ps @ sub @ ss"
    then obtain ps ss where eq: "c # cs = ps @ sub @ ss" by blast
    show "contains (c # cs) sub"
    proof (cases ps)
      case Nil
      with eq have "prefix sub (c # cs)" by (simp add: prefix_def)
      then show ?thesis by simp
    next
      case (Cons p ps')
      with eq have "cs = ps' @ sub @ ss" by simp
      with Cons.IH have "contains cs sub" by blast
      then show ?thesis by simp
    qed
  qed
qed

lemma contains_jetfuel_fuel: "contains s ''jetfuel'' \<Longrightarrow> contains s ''fuel''"
proof -
  assume "contains s ''jetfuel''"
  then obtain ps ss where "s = ps @ ''jetfuel'' @ ss" unfolding contains_iff by blast
  then have "s = (ps @ ''jet'') @ ''fuel'' @ ss" by simp
  then show ?thesis unfolding contains_iff by blast
qed

text \<open>
  Claim C9. In a session that is not ignoring, a startup location row whose name,
  lower-cased, contains \<open>jetfuel\<close> sets both the jet fuel flag and the avgas flag of the
  airport and binds the type \<open>FUEL\<close> to the stand: such a name also contains \<open>fuel\<close>.
\<close>

theorem jetfuel_sets_both_flags:
  assumes "\<not> ignoringAirport s"
    and "contains (toLower env (mid env line sl_NAME)) ''jetfuel''"
  shows "insertAirportQuery (writeStartupLocation env line s) '':has_jetfuel'' = Some (VInt 1)
         \<and> insertAirportQuery (writeStartupLocation env line s) '':has_avgas'' = Some (VInt 1)
         \<and> insertParkingQuery (writeStartupLocation env line s) '':type'' = Some (VStr ''FUEL'')"
proof -
  from assms(2) have fuel: "contains (toLower env (mid env line sl_NAME)) ''fuel''"
    by (rule contains_jetfuel_fuel)
  show ?thesis
    using assms fuel by (simp add: writeStartupLocation_def Let_def)
qed

text \<open>A stand named ``JetFuel Depot'' in the concrete session.\<close>

theorem jetfuel_sets_both_flags_witness:
  "\<not> ignoringAirport sampleAirportSession
   \<and> contains (toLower sampleCollaborators (mid sampleCollaborators sampleFuelStand sl_NAME)) ''jetfuel''
   \<and> insertAirportQuery (writeStartupLocation sampleCollaborators sampleFuelStand sampleAirportSession)
        '':has_jetfuel'' = Some (VInt 1)
   \<and> insertAirportQuery (writeStartupLocation sampleCollaborators sampleFuelStand sampleAirportSession)
        '':has_avgas'' = Some (VInt 1)
   \<and> insertParkingQuery (writeStartupLocation sampleCollaborators sampleFuelStand sampleAirportSession)
        '':type'' = Some (VStr ''FUEL'')"
proof -
  have name: "contains (toLower sampleCollaborators (mid sampleCollaborators sampleFuelStand sl_NAME)) ''jetfuel''"
    by (simp add: sampleCollaborators_def sampleFuelStand_def lowerChar_def)
  from jetfuel_sets_both_flags [OF sampleAirportSession_state(1) name]
  show ?thesis using name sampleAirportSession_state(1) by simp
qed

subsection \<open>Approach indicators by heading\<close>

lemma FLT_MAX_large: "352 < \<bar>FLT_MAX / 4 - 4\<bar>"
  by (simp add: FLT_MAX_def)

lemma findByAngle_single:
  assumes "valueFloat rec '':heading'' = 356"
  shows "findByAngle [rec] 4 0 (None, FLT_MAX / 4) = (None, FLT_MAX / 4)"
  using assms by simp

text \<open>
  Claim C10. The heading match of the approach indicator binder compares the raw numeric
  difference of the headings. With a single runway end of heading 356 on record and a
  lighting object row of orientation 4 that matches no runway by name, the difference is
  352 although the courses are 8 degrees apart: no candidate is found, no runway end
  record is changed, the counter stays, and the miss is logged.
\<close>

theorem vasi_heading_no_wraparound:
  assumes "\<not> ignoringAirport s"
    and "runwayEndRecords s = [rec]"
    and "valueFloat rec '':heading'' = 356"
    and "toFloat env (at_field line v_ORIENT) = 4"
    and "approachIndicatorOf env (toInt env (at_field line v_TYPE)) \<noteq> NO_APPR_INDICATOR"
    and "approachIndicatorOf env (toInt env (at_field line v_TYPE)) \<noteq> RUNWAY_GUARD"
    and "line_value line v_RUNWAY = [] \<or> valueStr rec '':name'' \<noteq> line_value line v_RUNWAY"
  shows "\<bar>valueFloat rec '':heading'' - toFloat env (at_field line v_ORIENT)\<bar> = 352
         \<and> fst (findByAngle (runwayEndRecords s) (toFloat env (at_field line v_ORIENT)) 0
                  (None, FLT_MAX / 4)) = None
         \<and> runwayEndRecords (bindVasi env line s) = runwayEndRecords s
         \<and> numRunwayEndVasi (bindVasi env line s) = numRunwayEndVasi s
         \<and> warnings (bindVasi env line s)
             = warnings (warnUnlessWriting ''bindVasi'' s)
                 @ [NoRunwayEndForVasi (line_value line v_RUNWAY) 4]"
proof -
  have byName: "line_value line v_RUNWAY \<noteq> [] \<Longrightarrow> findByName [rec] (line_value line v_RUNWAY) 0 = None"
    using assms(7) by auto
  have byAngle: "findByAngle [rec] 4 0 (None, FLT_MAX / 4) = (None, FLT_MAX / 4)"
    using assms(3) by (rule findByAngle_single)
  have keep: "runwayEndRecords (warnUnlessWriting ''bindVasi'' s) = [rec]"
    "numRunwayEndVasi (warnUnlessWriting ''bindVasi'' s) = numRunwayEndVasi s"
    using assms(2) by (simp_all add: warnUnlessWriting_def)
  have result: "bindVasi env line s
      = (warnUnlessWriting ''bindVasi'' s)
          \<lparr>warnings := warnings (warnUnlessWriting ''bindVasi'' s)
             @ [NoRunwayEndForVasi (line_value line v_RUNWAY) 4]\<rparr>"
    using assms(1,4,5,6) byName byAngle keep(1)
    by (simp add: bindVasi_def Let_def del: findByAngle.simps findByName.simps)
  show ?thesis
    using result keep assms(2,3,4) byAngle by simp
qed

text \<open>The row of orientation 4 against the recorded runway end of heading 356.\<close>

theorem vasi_heading_no_wraparound_witness:
  "\<not> ignoringAirport sampleVasiSession
   \<and> toFloat sampleCollaborators (at_field sampleVasiRow v_ORIENT) = 4
   \<and> approachIndicatorOf sampleCollaborators (toInt sampleCollaborators (at_field sampleVasiRow v_TYPE))
       = PAPI_4L
   \<and> line_value sampleVasiRow v_RUNWAY = []
   \<and> map (\<lambda>r. valueFloat r '':heading'') (runwayEndRecords sampleVasiSession) = [356]
   \<and> runwayEndRecords (bindVasi sampleCollaborators sampleVasiRow sampleVasiSession)
       = runwayEndRecords sampleVasiSession
   \<and> numRunwayEndVasi (bindVasi sampleCollaborators sampleVasiRow sampleVasiSession)
       = numRunwayEndVasi sampleVasiSession
   \<and> warnings (bindVasi sampleCollaborators sampleVasiRow sampleVasiSession)
       = warnings (warnUnlessWriting ''bindVasi'' sampleVasiSession) @ [NoRunwayEndForVasi [] 4]"
proof -
  have s: "\<not> ignoringAirport sampleVasiSession"
    "runwayEndRecords sampleVasiSession = [['':name'' \<mapsto> VStr ''36'', '':heading'' \<mapsto> VFloat 356]]"
    using sampleAirportSession_state(1) by (simp_all add: sampleVasiSession_def)
  have h: "valueFloat ['':name'' \<mapsto> VStr ''36'', '':heading'' \<mapsto> VFloat 356] '':heading'' = 356"
    by (simp add: valueFloat_def)
  have row: "toFloat sampleCollaborators (at_field sampleVasiRow v_ORIENT) = 4"
    "approachIndicatorOf sampleCollaborators (toInt sampleCollaborators (at_field sampleVasiRow v_TYPE))
       = PAPI_4L"
    "line_value sampleVasiRow v_RUNWAY = []"
    by (simp_all add: sampleCollaborators_def sampleVasiRow_def at_field_def line_value_def
        decimalToInt_def digitValue_def)
  have t: "approachIndicatorOf sampleCollaborators (toInt sampleCollaborators (at_field sampleVasiRow v_TYPE))
       \<noteq> NO_APPR_INDICATOR"
    "approachIndicatorOf sampleCollaborators (toInt sampleCollaborators (at_field sampleVasiRow v_TYPE))
       \<noteq> RUNWAY_GUARD"
    using row(2) by simp_all
  have n: "line_value sampleVasiRow v_RUNWAY = []
           \<or> valueStr ['':name'' \<mapsto> VStr ''36'', '':heading'' \<mapsto> VFloat 356] '':name''
               \<noteq> line_value sampleVasiRow v_RUNWAY"
    using row(3) by simp
  from vasi_heading_no_wraparound [OF s(1) s(2) h row(1) t n]
  show ?thesis using s row h by simp
qed

subsection \<open>The bounding rectangle at finalize\<close>

lemma resolve_no_rect_datum:
  assumes "\<not> rectIsValid env (airportRect s)" "posIsValid env (airportDatumPos s)"
  shows "airportPos (resolveBoundingRect env s) = airportDatumPos s"
    "airportRect (resolveBoundingRect env s) = rectOfPos env (airportDatumPos s)"
  using assms by (simp_all add: resolveBoundingRect_def Let_def)

lemma resolve_no_rect_runway:
  assumes "\<not> rectIsValid env (airportRect s)" "\<not> posIsValid env (airportDatumPos s)"
    "posIsValid env (longestRunwayCenterPos s)"
  shows "airportPos (resolveBoundingRect env s) = longestRunwayCenterPos s"
    "airportRect (resolveBoundingRect env s) = rectOfPos env (longestRunwayCenterPos s)"
  using assms by (simp_all add: resolveBoundingRect_def Let_def)

lemma resolve_no_rect_nothing:
  assumes "\<not> rectIsValid env (airportRect s)" "\<not> posIsValid env (airportDatumPos s)"
    "\<not> posIsValid env (longestRunwayCenterPos s)"
  shows "airportPos (resolveBoundingRect env s) = airportPos s"
    "airportRect (resolveBoundingRect env s) = airportRect s"
  using assms by (simp_all add: resolveBoundingRect_def Let_def)

lemma finishAirport_center:
  assumes "writingAirport s" "\<not> ignoringAirport s"
    "posIsValid env (airportPos (resolveBoundingRect env s))"
  shows "\<exists>row. airportRows (finishAirport env ctx s) = airportRows s @ [row]
           \<and> row '':lonx'' = Some (VFloat (getLonX env (airportPos (resolveBoundingRect env s))))
           \<and> row '':laty'' = Some (VFloat (getLatY env (airportPos (resolveBoundingRect env s))))"
proof -
  have rows: "airportRows (resolveBoundingRect env s) = airportRows s"
    by (simp add: resolveBoundingRect_def Let_def)
  show ?thesis
    using assms rows by (simp add: finishAirport_def reset_def Let_def)
qed

lemma sampleAirportSession_geo:
  "airportRect sampleAirportSession = None"
  "airportDatumPos sampleAirportSession = None"
  "longestRunwayCenterPos sampleAirportSession = None"
  "airportPos sampleAirportSession = None"
  by (simp_all add: sampleAirportSession_def bindAirport_def
      writeAirportFile_def addAirport_def Let_def freshSession_def sampleCollaborators_def)

lemma sample_geo:
  "rectIsValid sampleCollaborators r = (r \<noteq> None)"
  "posIsValid sampleCollaborators p = (p \<noteq> None)"
  "rectOfPos sampleCollaborators (Some q) = Some (q, q)"
  "getLonX sampleCollaborators (Some (x, y)) = x"
  "getLatY sampleCollaborators (Some (x, y)) = y"
  by (simp_all add: sampleCollaborators_def)

subsection \<open>Duplicate airports\<close>

lemma binders_ignoring:
  assumes "ignoringAirport s"
  shows "bindRunway env line rowCode s = s" "writeHelipad env line s = s"
    "bindPavement env line s = s" "bindPavementNode env line rowCode s = Some s"
    "bindViewpoint env line s = s" "writeStartup env line s = s" "bindVasi env line s = s"
    "writeStartupLocation env line s = s" "writeStartupLocationMetadata env line s = s"
    "bindTaxiNode env line s = s" "bindTaxiEdge env line s = s" "bindMetadata env line s = s"
    "bindFuel env line s = s" "writeCom env line rowCode s = s"
  using assms
  by (simp_all add: bindRunway_def writeHelipad_def bindPavement_def bindPavementNode_def
      bindViewpoint_def writeStartup_def bindVasi_def writeStartupLocation_def
      writeStartupLocationMetadata_def bindTaxiNode_def bindTaxiEdge_def bindMetadata_def
      bindFuel_def writeCom_def)

lemma writeLine_ignoring:
  assumes "ignoringAirport s" "\<not> writingStartLocation s" "\<not> isHeaderCode rowCode"
  shows "writeLine env ctx rowCode line s = Some s"
proof -
  have flush: "finishPavement s = s" "finishStartupLocation s = s"
    using assms(1,2) by (simp_all add: finishPavement_def finishStartupLocation_def)
  show ?thesis
    using assms(3) by (simp add: writeLine_def Let_def flush binders_ignoring [OF assms(1)])
qed

lemma writeAll_ignoring:
  assumes "ignoringAirport s" "\<not> writingStartLocation s"
    "\<forall>r \<in> set rows. \<not> isHeaderCode (fst r)"
  shows "writeAll env ctx rows s = Some s"
  using assms
proof (induction rows)
  case Nil
  then show ?case by simp
next
  case (Cons r rows)
  obtain rowCode line where r: "r = (rowCode, line)" by (cases r)
  with Cons.prems(3) have "\<not> isHeaderCode rowCode" by simp
  from writeLine_ignoring [OF Cons.prems(1,2) this]
  have "writeLine env ctx rowCode line s = Some s" .
  moreover from Cons have "writeAll env ctx rows s = Some s" by simp
  ultimately show ?case using r by simp
qed

lemma finish_ignoring:
  assumes "ignoringAirport s" "\<not> writingStartLocation s"
  shows "airportRows (finish env ctx s) = airportRows s"
  using assms
  by (simp add: finish_def finishPavement_def finishStartupLocation_def finishAirport_def reset_def)

lemma finish_resets:
  "\<not> writingAirport (finish env ctx s)" "\<not> writingStartLocation (finish env ctx s)"
  "\<not> ignoringAirport (finish env ctx s)"
  by (simp_all add: finish_def finishAirport_def reset_def)

lemma finishPavement_keeps:
  "airportIndex (finishPavement s) = airportIndex s"
  "airportFileRows (finishPavement s) = airportFileRows s"
  by (simp_all add: finishPavement_def Let_def warnUnlessWriting_def)

lemma finishStartupLocation_keeps:
  "airportIndex (finishStartupLocation s) = airportIndex s"
  "airportFileRows (finishStartupLocation s) = airportFileRows s"
  by (simp_all add: finishStartupLocation_def Let_def)

lemma resolveBoundingRect_keeps:
  "airportIndex (resolveBoundingRect env s) = airportIndex s"
  "airportFileRows (resolveBoundingRect env s) = airportFileRows s"
  by (simp_all add: resolveBoundingRect_def Let_def)

lemma finishAirport_keeps:
  "airportIndex (finishAirport env ctx s) = airportIndex s"
  "airportFileRows (finishAirport env ctx s) = airportFileRows s"
  by (simp_all add: finishAirport_def reset_def Let_def resolveBoundingRect_keeps)

lemma finish_keeps:
  "airportIndex (finish env ctx s) = airportIndex s"
  "airportFileRows (finish env ctx s) = airportFileRows s"
  by (simp_all add: finish_def finishAirport_keeps finishStartupLocation_keeps finishPavement_keeps)

lemma bindAirport_duplicate:
  assumes "line_value line ap_ICAO \<in> dom (airportIndex s)"
  shows "ignoringAirport (bindAirport env ctx line rowCode s)"
    "writingAirport (bindAirport env ctx line rowCode s) = writingAirport s"
    "writingStartLocation (bindAirport env ctx line rowCode s) = writingStartLocation s"
    "airportRows (bindAirport env ctx line rowCode s) = airportRows s"
    "\<exists>row. airportFileRows (bindAirport env ctx line rowCode s) = airportFileRows s @ [row]
       \<and> row '':ident'' = Some (VStr (line_value line ap_ICAO))"
  using assms
  by (simp_all add: bindAirport_def writeAirportFile_def addAirport_def Let_def)

lemma writeLine_header:
  assumes "isHeaderCode rowCode"
  shows "writeLine env ctx rowCode line s = Some (bindAirport env ctx line rowCode (finish env ctx s))"
proof -
  from assms have "rowCode \<notin> {PAVEMENT_HEADER, NODE, NODE_AND_CONTROL_POINT, NODE_CLOSE,
      NODE_AND_CONTROL_POINT_CLOSE}" "rowCode \<noteq> RAMP_START_METADATA"
    by (auto simp: isHeaderCode_def)
  with assms show ?thesis by (simp add: writeLine_def Let_def finish_def)
qed

text \<open>
  Claim C8. A header row whose identifier is already in the airport index is accepted
  and leaves the session ignoring and not writing. The airport table holds exactly what
  closing the previous block wrote, so nothing is written for the duplicate; one airport
  file row with the identifier is appended. Every later row that is not a header leaves
  the session as it is, and finalizing writes no airport row either.
\<close>

theorem duplicate_airport_ignored:
  assumes "isHeaderCode rowCode"
    and "line_value line ap_ICAO \<in> dom (airportIndex s)"
  shows "\<exists>s'. writeLine env ctx rowCode line s = Some s'
           \<and> ignoringAirport s' \<and> \<not> writingAirport s'
           \<and> airportRows s' = airportRows (finish env ctx s)
           \<and> (\<exists>row. airportFileRows s' = airportFileRows s @ [row]
                 \<and> row '':ident'' = Some (VStr (line_value line ap_ICAO)))
           \<and> (\<forall>rows. (\<forall>r \<in> set rows. \<not> isHeaderCode (fst r)) \<longrightarrow>
                 writeAll env ctx rows s' = Some s'
                 \<and> airportRows (finish env ctx s') = airportRows s')"
proof -
  let ?s0 = "finish env ctx s"
  let ?s' = "bindAirport env ctx line rowCode ?s0"
  have run: "writeLine env ctx rowCode line s = Some ?s'"
    using assms(1) by (rule writeLine_header)
  have dup: "line_value line ap_ICAO \<in> dom (airportIndex ?s0)"
    using assms(2) by (simp add: finish_keeps)
  note b = bindAirport_duplicate [OF dup, of env ctx rowCode]
  have ign: "ignoringAirport ?s'" by (rule b(1))
  have nowr: "\<not> writingAirport ?s'" using b(2) finish_resets(1) [of env ctx s] by simp
  have nostart: "\<not> writingStartLocation ?s'" using b(3) finish_resets(2) [of env ctx s] by simp
  have rows: "airportRows ?s' = airportRows ?s0" by (rule b(4))
  have audit: "\<exists>row. airportFileRows ?s' = airportFileRows s @ [row]
                 \<and> row '':ident'' = Some (VStr (line_value line ap_ICAO))"
    using b(5) by (simp add: finish_keeps)
  have later: "\<forall>rows. (\<forall>r \<in> set rows. \<not> isHeaderCode (fst r)) \<longrightarrow>
                 writeAll env ctx rows ?s' = Some ?s'
                 \<and> airportRows (finish env ctx ?s') = airportRows ?s'"
    using writeAll_ignoring [OF ign nostart] finish_ignoring [OF ign nostart] by blast
  from run ign nowr rows audit later show ?thesis by blast
qed

lemma finishAirport_emits:
  assumes "writingAirport s" "\<not> ignoringAirport s"
  shows "length (airportRows (finishAirport env ctx s)) = Suc (length (airportRows s))"
proof -
  have "airportRows (resolveBoundingRect env s) = airportRows s"
    by (simp add: resolveBoundingRect_def Let_def)
  then show ?thesis using assms by (simp add: finishAirport_def reset_def Let_def)
qed

lemma sampleAirportSession_index:
  "airportIndex sampleAirportSession ''KSEA'' = Some 1"
  "length (airportFileRows sampleAirportSession) = 1"
  by (simp_all add: sampleAirportSession_def bindAirport_def writeAirportFile_def addAirport_def
      Let_def freshSession_def sampleCollaborators_def sampleHeader_def line_value_def)

lemma finishStartupLocation_idle:
  "\<not> writingStartLocation s \<Longrightarrow> finishStartupLocation s = s"
  by (simp add: finishStartupLocation_def)

lemma sampleAirportSession_finish:
  "length (airportRows (finish sampleCollaborators sampleContext sampleAirportSession)) = 1"
proof -
  have p: "finishPavement sampleAirportSession = sampleAirportSession"
    using sampleAirportSession_state(3,4) by (intro finishPavement_idle) simp
  have q: "finishStartupLocation sampleAirportSession = sampleAirportSession"
    using sampleAirportSession_state(5) by (rule finishStartupLocation_idle)
  have "finish sampleCollaborators sampleContext sampleAirportSession
          = finishAirport sampleCollaborators sampleContext sampleAirportSession"
    unfolding finish_def p q ..
  then show ?thesis
    using finishAirport_emits [OF sampleAirportSession_state(2,1), of sampleCollaborators sampleContext]
      sampleAirportSession_state(8)
    by simp
qed
text \<open>
  The header of Seattle-Tacoma a second time: one airport row in all, two airport file
  rows, and the rows that follow are ignored.
\<close>

theorem duplicate_airport_ignored_witness:
  "isHeaderCode LAND_AIRPORT_HEADER
   \<and> line_value sampleHeader ap_ICAO = ''KSEA''
   \<and> airportIndex sampleAirportSession ''KSEA'' = Some 1
   \<and> (\<exists>s'. writeLine sampleCollaborators sampleContext LAND_AIRPORT_HEADER sampleHeader
               sampleAirportSession = Some s'
         \<and> ignoringAirport s' \<and> \<not> writingAirport s'
         \<and> airportRows s' = airportRows (finish sampleCollaborators sampleContext sampleAirportSession)
         \<and> length (airportRows s') = 1
         \<and> (\<exists>row. airportFileRows s' = airportFileRows sampleAirportSession @ [row]
               \<and> row '':ident'' = Some (VStr ''KSEA''))
         \<and> length (airportFileRows s') = 2
         \<and> writeAll sampleCollaborators sampleContext sampleIgnoredRows s' = Some s'
         \<and> airportRows (finish sampleCollaborators sampleContext s') = airportRows s')"
proof -
  have hdr: "isHeaderCode LAND_AIRPORT_HEADER" by (simp add: isHeaderCode_def)
  have icao: "line_value sampleHeader ap_ICAO = ''KSEA''"
    by (simp add: sampleHeader_def line_value_def)
  have dup: "line_value sampleHeader ap_ICAO \<in> dom (airportIndex sampleAirportSession)"
    using icao sampleAirportSession_index(1) by auto
  have rows: "\<forall>r \<in> set sampleIgnoredRows. \<not> isHeaderCode (fst r)"
    by (simp add: sampleIgnoredRows_def isHeaderCode_def)
  from duplicate_airport_ignored [OF hdr dup, of sampleCollaborators sampleContext]
  obtain s' where s': "writeLine sampleCollaborators sampleContext LAND_AIRPORT_HEADER sampleHeader
        sampleAirportSession = Some s'"
    "ignoringAirport s'" "\<not> writingAirport s'"
    "airportRows s' = airportRows (finish sampleCollaborators sampleContext sampleAirportSession)"
    "\<exists>row. airportFileRows s' = airportFileRows sampleAirportSession @ [row]
       \<and> row '':ident'' = Some (VStr (line_value sampleHeader ap_ICAO))"
    "\<forall>rows. (\<forall>r \<in> set rows. \<not> isHeaderCode (fst r)) \<longrightarrow>
       writeAll sampleCollaborators sampleContext rows s' = Some s'
       \<and> airportRows (finish sampleCollaborators sampleContext s') = airportRows s'"
    by blast
  from s'(6) rows
  have later: "writeAll sampleCollaborators sampleContext sampleIgnoredRows s' = Some s'"
    "airportRows (finish sampleCollaborators sampleContext s') = airportRows s'"
    by blast+
  have one: "length (airportRows s') = 1" using s'(4) sampleAirportSession_finish by simp
  have two: "length (airportFileRows s') = 2"
    using s'(5) sampleAirportSession_index(2) by auto
  from s'(1,2,3,4) s'(5) later one two icao
  have "\<exists>s'. writeLine sampleCollaborators sampleContext LAND_AIRPORT_HEADER sampleHeader
               sampleAirportSession = Some s'
         \<and> ignoringAirport s' \<and> \<not> writingAirport s'
         \<and> airportRows s' = airportRows (finish sampleCollaborators sampleContext sampleAirportSession)
         \<and> length (airportRows s') = 1
         \<and> (\<exists>row. airportFileRows s' = airportFileRows sampleAirportSession @ [row]
               \<and> row '':ident'' = Some (VStr ''KSEA''))
         \<and> length (airportFileRows s') = 2
         \<and> writeAll sampleCollaborators sampleContext sampleIgnoredRows s' = Some s'
         \<and> airportRows (finish sampleCollaborators sampleContext s') = airportRows s'"
    by (intro exI [of _ s']) simp
  with hdr icao sampleAirportSession_index(1) show ?thesis by simp
qed


subsection \<open>Gates and their size\<close>

lemma flushes_keep_ignoring:
  "ignoringAirport (finishPavement s) = ignoringAirport s"
  "ignoringAirport (finishStartupLocation s) = ignoringAirport s"
  by (simp_all add: finishPavement_def finishStartupLocation_def Let_def warnUnlessWriting_def)

lemma finishPavement_keeps_stand:
  "insertParkingQuery (finishPavement s) = insertParkingQuery s"
  "writingStartLocation (finishPavement s) = writingStartLocation s"
  "parkingRows (finishPavement s) = parkingRows s"
  by (simp_all add: finishPavement_def Let_def warnUnlessWriting_def)

lemma finishStartupLocation_flush:
  assumes "writingStartLocation s"
  shows "parkingRows (finishStartupLocation s) = parkingRows s @ [insertParkingQuery s]"
  using assms by (simp add: finishStartupLocation_def Let_def)

lemma finishAirport_keeps_parking:
  "parkingRows (finishAirport env ctx s) = parkingRows s"
proof -
  have "parkingRows (resolveBoundingRect env s) = parkingRows s"
    by (simp add: resolveBoundingRect_def Let_def)
  then show ?thesis by (simp add: finishAirport_def reset_def Let_def)
qed

lemma stand_without_fuel:
  assumes "\<not> ignoringAirport s"
    and "\<not> contains (toLower env (mid env line sl_NAME)) ''avgas''"
    and "\<not> contains (toLower env (mid env line sl_NAME)) ''mogas''"
    and "\<not> contains (toLower env (mid env line sl_NAME)) ''gas-station''"
    and "\<not> contains (toLower env (mid env line sl_NAME)) ''jetfuel''"
    and "\<not> contains (toLower env (mid env line sl_NAME)) ''fuel''"
  shows "insertParkingQuery (writeStartupLocation env line s) '':type'' = Some (VStr [])"
    "writingStartLocation (writeStartupLocation env line s)"
    "\<not> ignoringAirport (writeStartupLocation env line s)"
  using assms by (simp_all add: writeStartupLocation_def Let_def warnUnlessWriting_def)

lemma metadata_on_untyped_stand:
  assumes "\<not> ignoringAirport s" "insertParkingQuery s '':type'' = Some (VStr [])"
    "line_value meta sm_WIDTH = ''D''"
  shows "insertParkingQuery (writeStartupLocationMetadata env meta s) '':radius'' = Some (VFloat 80)"
    "insertParkingQuery (writeStartupLocationMetadata env meta s) '':type''
       = Some (VStr (if line_value meta sm_OPTYPE = ''general_aviation'' then ''RGAM''
                     else if line_value meta sm_OPTYPE = ''cargo'' then ''RC''
                     else if line_value meta sm_OPTYPE = ''military'' then ''RM''
                     else []))"
    "writingStartLocation (writeStartupLocationMetadata env meta s) = writingStartLocation s"
    "parkingRows (writeStartupLocationMetadata env meta s) = parkingRows s"
    "ignoringAirport (writeStartupLocationMetadata env meta s) = ignoringAirport s"
  using assms
  by (simp_all add: writeStartupLocationMetadata_def Let_def warnUnlessWriting_def valueStr_def
      widthCodeRadiusSize_def)

text \<open>
  Claim C1, as the code behaves. A startup location row of type \<open>gate\<close> whose name
  triggers no fuel heuristic, followed at once by a metadata row with width code D, is
  flushed at finalize with radius 80, but never with type \<open>GM\<close>: the binder overwrites
  the type \<open>G\<close> it has just bound with the empty string, so the metadata row finds no
  gate to size. The flushed type is the ramp type of the operation type (\<open>RGAM\<close>, \<open>RC\<close>
  or \<open>RM\<close>), and empty for every other operation type.
\<close>

theorem gate_stand_type_is_lost:
  assumes "\<not> ignoringAirport s"
    and "at_field line sl_TYPE = ''gate''"
    and "\<not> contains (toLower env (mid env line sl_NAME)) ''avgas''"
    and "\<not> contains (toLower env (mid env line sl_NAME)) ''mogas''"
    and "\<not> contains (toLower env (mid env line sl_NAME)) ''gas-station''"
    and "\<not> contains (toLower env (mid env line sl_NAME)) ''jetfuel''"
    and "\<not> contains (toLower env (mid env line sl_NAME)) ''fuel''"
    and "line_value meta sm_WIDTH = ''D''"
  shows "\<exists>s2 row. writeAll env ctx [(AIRPORT_LOCATION, line), (RAMP_START_METADATA, meta)] s = Some s2
           \<and> parkingRows (finish env ctx s2) = parkingRows s2 @ [row]
           \<and> row '':radius'' = Some (VFloat 80)
           \<and> row '':type''
               = Some (VStr (if line_value meta sm_OPTYPE = ''general_aviation'' then ''RGAM''
                             else if line_value meta sm_OPTYPE = ''cargo'' then ''RC''
                             else if line_value meta sm_OPTYPE = ''military'' then ''RM''
                             else []))
           \<and> row '':type'' \<noteq> Some (VStr ''GM'')"
proof -
  let ?s0 = "finishStartupLocation (finishStartupLocation (finishPavement s))"
  let ?s1 = "writeStartupLocation env line ?s0"
  let ?s2 = "writeStartupLocationMetadata env meta (finishPavement ?s1)"
  have ign0: "\<not> ignoringAirport ?s0" using assms(1) by (simp add: flushes_keep_ignoring)
  note stand = stand_without_fuel [OF ign0 assms(3-7)]
  have first: "writeLine env ctx AIRPORT_LOCATION line s = Some ?s1"
    by (simp add: writeLine_def Let_def isHeaderCode_def)
  have second: "writeLine env ctx RAMP_START_METADATA meta ?s1 = Some ?s2"
    by (simp add: writeLine_def Let_def isHeaderCode_def)
  have run: "writeAll env ctx [(AIRPORT_LOCATION, line), (RAMP_START_METADATA, meta)] s = Some ?s2"
    using first second by simp
  have ign1: "\<not> ignoringAirport (finishPavement ?s1)"
    using stand(3) by (simp add: flushes_keep_ignoring)
  have type1: "insertParkingQuery (finishPavement ?s1) '':type'' = Some (VStr [])"
    using stand(1) by (simp add: finishPavement_keeps_stand)
  note meta = metadata_on_untyped_stand [OF ign1 type1 assms(8), of env]
  have open2: "writingStartLocation (finishPavement ?s2)"
    using meta(3) stand(2) by (simp add: finishPavement_keeps_stand)
  have "parkingRows (finish env ctx ?s2) = parkingRows ?s2 @ [insertParkingQuery ?s2]"
    using finishStartupLocation_flush [OF open2]
    by (simp add: finish_def finishAirport_keeps_parking finishPavement_keeps_stand)
  moreover have "insertParkingQuery ?s2 '':type'' \<noteq> Some (VStr ''GM'')"
    using meta(2) by simp
  ultimately show ?thesis using run meta(1,2) by blast
qed

lemma sampleGateStand_name:
  "toLower sampleCollaborators (mid sampleCollaborators sampleGateStand sl_NAME) = ''gate a1''"
  by (simp add: sampleCollaborators_def sampleGateStand_def lowerChar_def)

text \<open>The stand ``Gate A1'' with width code D in the concrete session.\<close>

theorem gate_stand_type_is_lost_witness:
  "\<not> ignoringAirport sampleAirportSession
   \<and> at_field sampleGateStand sl_TYPE = ''gate''
   \<and> toLower sampleCollaborators (mid sampleCollaborators sampleGateStand sl_NAME) = ''gate a1''
   \<and> line_value sampleGateMetadata sm_WIDTH = ''D''
   \<and> line_value sampleGateMetadata sm_OPTYPE = ''airline''
   \<and> (\<exists>s2 row. writeAll sampleCollaborators sampleContext
                    [(AIRPORT_LOCATION, sampleGateStand), (RAMP_START_METADATA, sampleGateMetadata)]
                    sampleAirportSession = Some s2
          \<and> parkingRows (finish sampleCollaborators sampleContext s2) = parkingRows s2 @ [row]
          \<and> row '':radius'' = Some (VFloat 80)
          \<and> row '':type'' = Some (VStr [])
          \<and> row '':type'' \<noteq> Some (VStr ''GM''))"
proof -
  have stand: "at_field sampleGateStand sl_TYPE = ''gate''"
    by (simp add: sampleGateStand_def at_field_def)
  have nofuel: "\<not> contains (toLower sampleCollaborators (mid sampleCollaborators sampleGateStand sl_NAME)) ''avgas''"
    "\<not> contains (toLower sampleCollaborators (mid sampleCollaborators sampleGateStand sl_NAME)) ''mogas''"
    "\<not> contains (toLower sampleCollaborators (mid sampleCollaborators sampleGateStand sl_NAME)) ''gas-station''"
    "\<not> contains (toLower sampleCollaborators (mid sampleCollaborators sampleGateStand sl_NAME)) ''jetfuel''"
    "\<not> contains (toLower sampleCollaborators (mid sampleCollaborators sampleGateStand sl_NAME)) ''fuel''"
    by (simp_all add: sampleGateStand_name)
  have meta: "line_value sampleGateMetadata sm_WIDTH = ''D''"
    "line_value sampleGateMetadata sm_OPTYPE = ''airline''"
    by (simp_all add: sampleGateMetadata_def line_value_def)
  from gate_stand_type_is_lost [OF sampleAirportSession_state(1) stand nofuel meta(1),
      of sampleContext]
  show ?thesis
    using sampleAirportSession_state(1) stand sampleGateStand_name meta by simp
qed

subsection \<open>Polygons from rows\<close>

lemma node_keeps_stand:
  assumes "bindPavementNode env line rowCode s = Some s'"
  shows "writingStartLocation s' = writingStartLocation s"
  using assms
  by (auto simp: bindPavementNode_def Let_def warnUnlessWriting_def split: if_splits option.splits)

lemma writeLine_node:
  assumes "isNodeCode rowCode" "\<not> writingStartLocation s"
  shows "writeLine env ctx rowCode line s = bindPavementNode env line rowCode s"
proof -
  have idle: "finishStartupLocation s = s"
    using assms(2) by (rule finishStartupLocation_idle)
  from assms(1) have code: "rowCode \<in> {PAVEMENT_HEADER, NODE, NODE_AND_CONTROL_POINT, NODE_CLOSE,
      NODE_AND_CONTROL_POINT_CLOSE}" "rowCode \<noteq> RAMP_START_METADATA" "\<not> isHeaderCode rowCode"
    "rowCode \<noteq> LAND_RUNWAY" "rowCode \<noteq> WATER_RUNWAY" "rowCode \<noteq> HELIPAD"
    "rowCode \<noteq> PAVEMENT_HEADER"
    "rowCode \<in> {NODE, NODE_AND_CONTROL_POINT, NODE_CLOSE, NODE_AND_CONTROL_POINT_CLOSE}"
    by (auto simp: isNodeCode_def isHeaderCode_def)
  show ?thesis
    unfolding writeLine_def Let_def using code idle by (simp del: insert_iff)
qed

lemma writeAll_nodes:
  assumes "\<not> writingStartLocation s" "\<forall>row \<in> set rows. isNodeCode (fst row)"
  shows "writeAll env ctx rows s = bindPavementNodes env rows s"
  using assms
proof (induction rows arbitrary: s)
  case Nil
  then show ?case by simp
next
  case (Cons row rows)
  obtain rowCode line where row: "row = (rowCode, line)" by (cases row)
  with Cons.prems(2) have code: "isNodeCode rowCode" by simp
  have step: "writeLine env ctx rowCode line s = bindPavementNode env line rowCode s"
    using code Cons.prems(1) by (rule writeLine_node)
  show ?case
  proof (cases "bindPavementNode env line rowCode s")
    case None
    with step row show ?thesis by simp
  next
    case (Some s1)
    from node_keeps_stand [OF Some] Cons.prems(1) have "\<not> writingStartLocation s1" by simp
    moreover from Cons.prems(2) have "\<forall>row \<in> set rows. isNodeCode (fst row)" by simp
    ultimately have "writeAll env ctx rows s1 = bindPavementNodes env rows s1" by (rule Cons.IH)
    with step Some row show ?thesis by simp
  qed
qed

lemma writeLine_pavement_header:
  "writeLine env ctx PAVEMENT_HEADER line s
     = Some (bindPavement env line (finishPavement (finishStartupLocation s)))"
  by (simp add: writeLine_def Let_def isHeaderCode_def)

lemma pavement_header_keeps_stand:
  "writingStartLocation (bindPavement env line s) = writingStartLocation s"
  by (simp add: bindPavement_def Let_def warnUnlessWriting_def)

lemma finishStartupLocation_closed:
  "\<not> writingStartLocation (finishStartupLocation s)"
  by (simp add: finishStartupLocation_def Let_def)

lemma finishAirport_keeps_aprons:
  "apronRows (finishAirport env ctx s) = apronRows s"
proof -
  have "apronRows (resolveBoundingRect env s) = apronRows s"
    by (simp add: resolveBoundingRect_def Let_def)
  then show ?thesis by (simp add: finishAirport_def reset_def Let_def)
qed

lemma finishStartupLocation_keeps_aprons:
  "apronRows (finishStartupLocation s) = apronRows s"
  by (simp add: finishStartupLocation_def Let_def)

text \<open>
  Claim C4. In a session that is not ignoring, a pavement header row starts the
  assembler afresh; \<open>bnodes\<close> are the N boundary node rows (N at least 1), of which only
  the last carries a closing code; \<open>hnodes\<close> are the M hole node rows (M at least 1), of
  which only the last carries a closing code. Every row is accepted, and the flush at
  finalize writes one apron row whose polygon has the N nodes as its boundary ring and
  exactly one hole ring, made of the M nodes.
\<close>

theorem polygon_one_boundary_one_hole:
  assumes "\<not> ignoringAirport s"
    and "bnodes \<noteq> []" and "\<forall>row \<in> set bnodes. isNodeCode (fst row)"
    and "\<forall>row \<in> set (butlast bnodes). \<not> isCloseCode (fst row)"
    and "isCloseCode (fst (last bnodes))"
    and "hnodes \<noteq> []" and "\<forall>row \<in> set hnodes. isNodeCode (fst row)"
    and "\<forall>row \<in> set (butlast hnodes). \<not> isCloseCode (fst row)"
    and "isCloseCode (fst (last hnodes))"
  shows "\<exists>s' row g. writeAll env ctx ((PAVEMENT_HEADER, hdr) # bnodes @ hnodes) s = Some s'
           \<and> apronRows (finish env ctx s') = apronRows s' @ [row]
           \<and> row '':geometry'' = Some (VGeometry g)
           \<and> boundary g = map (ringNode env) bnodes
           \<and> holes g = [map (ringNode env) hnodes]
           \<and> length (boundary g) = length bnodes
           \<and> length (holes g) = 1
           \<and> length (hd (holes g)) = length hnodes"
proof -
  let ?s0 = "finishPavement (finishStartupLocation s)"
  let ?s1 = "bindPavement env hdr ?s0"
  have ign0: "\<not> ignoringAirport ?s0" using assms(1) by (simp add: flushes_keep_ignoring)
  have closed0: "\<not> writingStartLocation ?s0"
    by (simp add: finishPavement_keeps_stand finishStartupLocation_closed)
  have closed1: "\<not> writingStartLocation ?s1"
    using closed0 by (simp add: pavement_header_keeps_stand)
  from polygon_rings [OF ign0 assms(2,4,5,6,8,9), of env hdr]
  obtain s2 g where s2: "bindPavementNodes env (bnodes @ hnodes) ?s1 = Some s2"
    "apronRows (finishPavement s2)
       = apronRows ?s0 @ [(insertApronQuery s2)('':geometry'' \<mapsto> VGeometry g)]"
    "apronRows s2 = apronRows ?s0"
    "boundary g = map (ringNode env) bnodes" "holes g = [map (ringNode env) hnodes]"
    by blast
  have nodes: "\<forall>row \<in> set (bnodes @ hnodes). isNodeCode (fst row)"
    using assms(3,7) by auto
  have run: "writeAll env ctx ((PAVEMENT_HEADER, hdr) # bnodes @ hnodes) s = Some s2"
    using writeAll_nodes [OF closed1 nodes, of env ctx] s2(1)
    by (simp add: writeLine_pavement_header)
  have "apronRows (finish env ctx s2) = apronRows (finishPavement s2)"
    by (simp add: finish_def finishAirport_keeps_aprons finishStartupLocation_keeps_aprons)
  with s2(2,3)
  have flushed: "apronRows (finish env ctx s2)
      = apronRows s2 @ [(insertApronQuery s2)('':geometry'' \<mapsto> VGeometry g)]"
    by simp
  let ?row = "(insertApronQuery s2)('':geometry'' \<mapsto> VGeometry g)"
  have "?row '':geometry'' = Some (VGeometry g)" by simp
  with run flushed s2(4,5) show ?thesis
    by (intro exI [of _ s2] exI [of _ ?row] exI [of _ g]) simp
qed

text \<open>Three boundary rows and two hole rows after the header of the concrete session.\<close>

theorem polygon_one_boundary_one_hole_witness:
  "\<not> ignoringAirport sampleAirportSession
   \<and> sampleBoundaryRows \<noteq> []
   \<and> map fst sampleBoundaryRows = [NODE, NODE_AND_CONTROL_POINT, NODE_CLOSE]
   \<and> sampleHoleRows \<noteq> []
   \<and> map fst sampleHoleRows = [NODE, NODE_AND_CONTROL_POINT_CLOSE]
   \<and> (\<exists>s' row g. writeAll sampleCollaborators sampleContext
                     ((PAVEMENT_HEADER, [''110'', ''1'']) # sampleBoundaryRows @ sampleHoleRows)
                     sampleAirportSession = Some s'
         \<and> apronRows (finish sampleCollaborators sampleContext s') = apronRows s' @ [row]
         \<and> row '':geometry'' = Some (VGeometry g)
         \<and> boundary g = map (ringNode sampleCollaborators) sampleBoundaryRows
         \<and> holes g = [map (ringNode sampleCollaborators) sampleHoleRows]
         \<and> length (boundary g) = 3
         \<and> length (holes g) = 1
         \<and> length (hd (holes g)) = 2)"
proof -
  have b: "sampleBoundaryRows \<noteq> []"
    "\<forall>row \<in> set sampleBoundaryRows. isNodeCode (fst row)"
    "\<forall>row \<in> set (butlast sampleBoundaryRows). \<not> isCloseCode (fst row)"
    "isCloseCode (fst (last sampleBoundaryRows))"
    by (simp_all add: sampleBoundaryRows_def isCloseCode_def isNodeCode_def)
  have h: "sampleHoleRows \<noteq> []"
    "\<forall>row \<in> set sampleHoleRows. isNodeCode (fst row)"
    "\<forall>row \<in> set (butlast sampleHoleRows). \<not> isCloseCode (fst row)"
    "isCloseCode (fst (last sampleHoleRows))"
    by (simp_all add: sampleHoleRows_def isCloseCode_def isNodeCode_def)
  have len: "length sampleBoundaryRows = 3" "length sampleHoleRows = 2"
    "map fst sampleBoundaryRows = [NODE, NODE_AND_CONTROL_POINT, NODE_CLOSE]"
    "map fst sampleHoleRows = [NODE, NODE_AND_CONTROL_POINT_CLOSE]"
    by (simp_all add: sampleBoundaryRows_def sampleHoleRows_def)
  from polygon_one_boundary_one_hole [OF sampleAirportSession_state(1) b h,
      of sampleCollaborators sampleContext "[''110'', ''1'']"]
  show ?thesis using sampleAirportSession_state(1) b(1) h(1) len by simp
qed

subsection \<open>Runway headings\<close>






lemma bindRunway_keeps:
  "writingAirport (bindRunway env line rowCode s) = writingAirport s"
  "ignoringAirport (bindRunway env line rowCode s) = ignoringAirport s"
  "runwayEndRows (bindRunway env line rowCode s) = runwayEndRows s"
  by (simp_all add: bindRunway_def Let_def warnUnlessWriting_def)





lemma bindRunway_geometry:
  assumes "\<not> ignoringAirport s"
  shows "airportRect (bindRunway env line rowCode s)
           = rectExtend env (rectExtend env (airportRect s) (runwayPrimaryPos env rowCode line))
               (runwaySecondaryPos env rowCode line)"
    "numRunway (bindRunway env line rowCode s) = numRunway s + 1"
    "longestRunwayCenterPos (bindRunway env line rowCode s)
       = (if meterToFeet env (distanceMeterTo env (runwayPrimaryPos env rowCode line)
                                (runwaySecondaryPos env rowCode line)) > longestRunwayLength s
          then interpolate env (runwayPrimaryPos env rowCode line) (runwaySecondaryPos env rowCode line)
                 (distanceMeterTo env (runwayPrimaryPos env rowCode line)
                    (runwaySecondaryPos env rowCode line)) (1 / 2)
          else longestRunwayCenterPos s)"
    "airportDatumPos (bindRunway env line rowCode s) = airportDatumPos s"
    "airportPos (bindRunway env line rowCode s) = airportPos s"
  using assms by (simp_all add: bindRunway_def Let_def warnUnlessWriting_def)

lemma sampleLandRunway_ends:
  "runwayPrimaryPos sampleCollaborators LAND_RUNWAY sampleLandRunway = Some (122, 47)"
  "runwaySecondaryPos sampleCollaborators LAND_RUNWAY sampleLandRunway = Some (123, 47)"
  by (simp_all add: runwayPrimaryPos_def runwaySecondaryPos_def sampleCollaborators_def
      sampleLandRunway_def at_field_def decimalToInt_def digitValue_def)


lemma sample_runway_geo:
  "angleDegTo sampleCollaborators = plainAngle"
  "distanceMeterTo sampleCollaborators = plainDistance"
  "interpolate sampleCollaborators = plainInterpolate"
  "meterToFeet sampleCollaborators m = m * 3281 / 1000"
  "rectExtend sampleCollaborators = plainExtend"
  "rectContains sampleCollaborators = plainContains"
  "rectInflate sampleCollaborators (Some ((l, t), (rt, b))) dx dy
     = Some ((l - dx, t + dy), (rt + dx, b - dy))"
  "rectCenter sampleCollaborators (Some ((l, t), (rt, b))) = Some ((l + rt) / 2, (t + b) / 2)"
  "POS_EPSILON_100M sampleCollaborators = 1 / 1000"
  by (simp_all add: sampleCollaborators_def)

lemma sampleAirportSession_runway:
  "longestRunwayLength sampleAirportSession = 0" "numRunway sampleAirportSession = 0"
  "runwayEndRows sampleAirportSession = []"
  by (simp_all add: sampleAirportSession_def bindAirport_def
      writeAirportFile_def addAirport_def Let_def freshSession_def sampleCollaborators_def)

lemma sampleOneRunwaySession_state:
  "writingAirport sampleOneRunwaySession" "\<not> ignoringAirport sampleOneRunwaySession"
  "airportRect sampleOneRunwaySession = Some ((122, 47), (123, 47))"
  "numRunway sampleOneRunwaySession = 1"
  "longestRunwayCenterPos sampleOneRunwaySession = Some (245 / 2, 47)"
  "airportDatumPos sampleOneRunwaySession = None"
  "airportPos sampleOneRunwaySession = None"
  unfolding sampleOneRunwaySession_def
  by (simp_all add: bindRunway_keeps bindRunway_geometry sampleAirportSession_state
      sampleAirportSession_geo sampleAirportSession_runway sampleLandRunway_ends sample_runway_geo
      plainExtend_def plainDistance_def plainInterpolate_def)




subsection \<open>The centre position at finalize\<close>

lemma resolve_rect_datum_inside:
  assumes "rectIsValid env (airportRect s)" "posIsValid env (airportDatumPos s)"
    "rectContains env (rectInflate env (airportRect s) (POS_EPSILON_100M env) (POS_EPSILON_100M env))
       (airportDatumPos s)"
  shows "airportPos (resolveBoundingRect env s) = airportDatumPos s"
  using assms by (simp add: resolveBoundingRect_def Let_def)

lemma resolve_rect_datum_outside_one:
  assumes "rectIsValid env (airportRect s)" "posIsValid env (airportDatumPos s)"
    "\<not> rectContains env (rectInflate env (airportRect s) (POS_EPSILON_100M env) (POS_EPSILON_100M env))
         (airportDatumPos s)"
    "numRunway s = 1"
  shows "airportPos (resolveBoundingRect env s) = longestRunwayCenterPos s"
  using assms by (simp add: resolveBoundingRect_def Let_def)

lemma resolve_rect_datum_outside_more:
  assumes "rectIsValid env (airportRect s)" "posIsValid env (airportDatumPos s)"
    "\<not> rectContains env (rectInflate env (airportRect s) (POS_EPSILON_100M env) (POS_EPSILON_100M env))
         (airportDatumPos s)"
    "numRunway s \<noteq> 1"
  shows "airportPos (resolveBoundingRect env s) = rectCenter env (airportRect s)"
  using assms by (simp add: resolveBoundingRect_def Let_def)

lemma resolve_rect_no_datum:
  assumes "rectIsValid env (airportRect s)" "\<not> posIsValid env (airportDatumPos s)"
  shows "airportPos (resolveBoundingRect env s) = airportPos s"
  using assms by (simp add: resolveBoundingRect_def Let_def)

lemma finishAirport_row:
  assumes "writingAirport s" "\<not> ignoringAirport s"
  shows "\<exists>row. airportRows (finishAirport env ctx s) = airportRows s @ [row]
           \<and> (posIsValid env (airportPos (resolveBoundingRect env s)) \<longrightarrow>
                 row '':lonx'' = Some (VFloat (getLonX env (airportPos (resolveBoundingRect env s))))
                 \<and> row '':laty'' = Some (VFloat (getLatY env (airportPos (resolveBoundingRect env s)))))"
proof (cases "posIsValid env (airportPos (resolveBoundingRect env s))")
  case True
  from finishAirport_center [OF assms True, of ctx] show ?thesis by blast
next
  case False
  have rows: "airportRows (resolveBoundingRect env s) = airportRows s"
    by (simp add: resolveBoundingRect_def Let_def)
  have "\<exists>row. airportRows (finishAirport env ctx s) = airportRows s @ [row]"
    using assms rows by (simp add: finishAirport_def reset_def Let_def)
  with False show ?thesis by blast
qed

text \<open>
  Claim C2, as the code has it. At airport finalize the centre position is settled as
  follows. With no bounding rectangle: a valid datum position is taken; failing that, a
  valid centre of the longest runway; failing both, the centre position stays as it was.
  With a bounding rectangle and a valid datum position: the datum position is taken if
  it lies in the rectangle inflated by the epsilon margin; if not, the centre of the
  longest runway when exactly one runway was counted, and the centre of the rectangle
  otherwise. With a bounding rectangle and no valid datum position the centre position
  stays as it was. So the centre of the longest runway is chosen in two cases only: no
  rectangle and no valid datum position, or a rectangle with a valid datum position
  outside it and exactly one runway. The airport row carries the coordinates of the
  centre position so settled whenever that position is valid.
\<close>

theorem center_position_at_finalize:
  assumes "writingAirport s" and "\<not> ignoringAirport s"
  shows "(\<not> rectIsValid env (airportRect s) \<and> posIsValid env (airportDatumPos s) \<longrightarrow>
            airportPos (resolveBoundingRect env s) = airportDatumPos s)
       \<and> (\<not> rectIsValid env (airportRect s) \<and> \<not> posIsValid env (airportDatumPos s)
            \<and> posIsValid env (longestRunwayCenterPos s) \<longrightarrow>
            airportPos (resolveBoundingRect env s) = longestRunwayCenterPos s)
       \<and> (\<not> rectIsValid env (airportRect s) \<and> \<not> posIsValid env (airportDatumPos s)
            \<and> \<not> posIsValid env (longestRunwayCenterPos s) \<longrightarrow>
            airportPos (resolveBoundingRect env s) = airportPos s)
       \<and> (rectIsValid env (airportRect s) \<and> posIsValid env (airportDatumPos s)
            \<and> rectContains env
                (rectInflate env (airportRect s) (POS_EPSILON_100M env) (POS_EPSILON_100M env))
                (airportDatumPos s) \<longrightarrow>
            airportPos (resolveBoundingRect env s) = airportDatumPos s)
       \<and> (rectIsValid env (airportRect s) \<and> posIsValid env (airportDatumPos s)
            \<and> \<not> rectContains env
                  (rectInflate env (airportRect s) (POS_EPSILON_100M env) (POS_EPSILON_100M env))
                  (airportDatumPos s)
            \<and> numRunway s = 1 \<longrightarrow>
            airportPos (resolveBoundingRect env s) = longestRunwayCenterPos s)
       \<and> (rectIsValid env (airportRect s) \<and> posIsValid env (airportDatumPos s)
            \<and> \<not> rectContains env
                  (rectInflate env (airportRect s) (POS_EPSILON_100M env) (POS_EPSILON_100M env))
                  (airportDatumPos s)
            \<and> numRunway s \<noteq> 1 \<longrightarrow>
            airportPos (resolveBoundingRect env s) = rectCenter env (airportRect s))
       \<and> (rectIsValid env (airportRect s) \<and> \<not> posIsValid env (airportDatumPos s) \<longrightarrow>
            airportPos (resolveBoundingRect env s) = airportPos s)
       \<and> (\<exists>row. airportRows (finishAirport env ctx s) = airportRows s @ [row]
             \<and> (posIsValid env (airportPos (resolveBoundingRect env s)) \<longrightarrow>
                   row '':lonx'' = Some (VFloat (getLonX env (airportPos (resolveBoundingRect env s))))
                   \<and> row '':laty'' = Some (VFloat (getLatY env (airportPos (resolveBoundingRect env s))))))"
proof -
  let ?P = "airportPos (resolveBoundingRect env s)"
  let ?T = "rectInflate env (airportRect s) (POS_EPSILON_100M env) (POS_EPSILON_100M env)"
  have c1: "\<not> rectIsValid env (airportRect s) \<and> posIsValid env (airportDatumPos s) \<longrightarrow>
      ?P = airportDatumPos s"
    by (simp add: resolve_no_rect_datum)
  have c2: "\<not> rectIsValid env (airportRect s) \<and> \<not> posIsValid env (airportDatumPos s)
      \<and> posIsValid env (longestRunwayCenterPos s) \<longrightarrow> ?P = longestRunwayCenterPos s"
    by (simp add: resolve_no_rect_runway)
  have c3: "\<not> rectIsValid env (airportRect s) \<and> \<not> posIsValid env (airportDatumPos s)
      \<and> \<not> posIsValid env (longestRunwayCenterPos s) \<longrightarrow> ?P = airportPos s"
    by (simp add: resolve_no_rect_nothing)
  have c4: "rectIsValid env (airportRect s) \<and> posIsValid env (airportDatumPos s)
      \<and> rectContains env ?T (airportDatumPos s) \<longrightarrow> ?P = airportDatumPos s"
    by (simp add: resolve_rect_datum_inside)
  have c5: "rectIsValid env (airportRect s) \<and> posIsValid env (airportDatumPos s)
      \<and> \<not> rectContains env ?T (airportDatumPos s) \<and> numRunway s = 1 \<longrightarrow>
      ?P = longestRunwayCenterPos s"
    by (simp add: resolve_rect_datum_outside_one)
  have c6: "rectIsValid env (airportRect s) \<and> posIsValid env (airportDatumPos s)
      \<and> \<not> rectContains env ?T (airportDatumPos s) \<and> numRunway s \<noteq> 1 \<longrightarrow>
      ?P = rectCenter env (airportRect s)"
    by (simp add: resolve_rect_datum_outside_more)
  have c7: "rectIsValid env (airportRect s) \<and> \<not> posIsValid env (airportDatumPos s) \<longrightarrow>
      ?P = airportPos s"
    by (simp add: resolve_rect_no_datum)
  note row = finishAirport_row [OF assms, of env ctx]
  show ?thesis
    apply (rule conjI, rule c1)
    apply (rule conjI, rule c2)
    apply (rule conjI, rule c3)
    apply (rule conjI, rule c4)
    apply (rule conjI, rule c5)
    apply (rule conjI, rule c6)
    apply (rule conjI, rule c7)
    apply (rule row)
    done
qed

lemma sampleDatumOnlySession_state:
  "writingAirport sampleDatumOnlySession" "\<not> ignoringAirport sampleDatumOnlySession"
  "airportRect sampleDatumOnlySession = None"
  "airportDatumPos sampleDatumOnlySession = Some (- 122, 47)"
  "longestRunwayCenterPos sampleDatumOnlySession = None"
  "airportRows sampleDatumOnlySession = []"
  using sampleAirportSession_state(1,2,8) sampleAirportSession_geo
  by (simp_all add: sampleDatumOnlySession_def)

lemma sampleRunwayOnlySession_state:
  "writingAirport sampleRunwayOnlySession" "\<not> ignoringAirport sampleRunwayOnlySession"
  "airportRect sampleRunwayOnlySession = None"
  "airportDatumPos sampleRunwayOnlySession = None"
  "longestRunwayCenterPos sampleRunwayOnlySession = Some (- 123, 48)"
  using sampleAirportSession_state(1,2) sampleAirportSession_geo
  by (simp_all add: sampleRunwayOnlySession_def)

lemma sampleFarDatumSession_state:
  "writingAirport sampleFarDatumSession" "\<not> ignoringAirport sampleFarDatumSession"
  "airportRect sampleFarDatumSession = Some ((122, 47), (123, 47))"
  "numRunway sampleFarDatumSession = 1"
  "longestRunwayCenterPos sampleFarDatumSession = Some (245 / 2, 47)"
  "airportDatumPos sampleFarDatumSession = Some (10, 10)"
  using sampleOneRunwaySession_state by (simp_all add: sampleFarDatumSession_def)

lemma sampleNearDatumSession_state:
  "writingAirport sampleNearDatumSession" "\<not> ignoringAirport sampleNearDatumSession"
  "airportRect sampleNearDatumSession = Some ((122, 47), (123, 47))"
  "airportDatumPos sampleNearDatumSession = Some (123, 47)"
  using sampleOneRunwaySession_state by (simp_all add: sampleNearDatumSession_def)

lemma sampleTwoRunwaySession_state:
  "writingAirport sampleTwoRunwaySession" "\<not> ignoringAirport sampleTwoRunwaySession"
  "airportRect sampleTwoRunwaySession = Some ((122, 47), (123, 47))"
  "numRunway sampleTwoRunwaySession = 2"
  "airportDatumPos sampleTwoRunwaySession = Some (10, 10)"
  using sampleFarDatumSession_state by (simp_all add: sampleTwoRunwaySession_def)

lemma sample_inflated:
  "rectInflate sampleCollaborators (Some ((122, 47), (123, 47)))
     (POS_EPSILON_100M sampleCollaborators) (POS_EPSILON_100M sampleCollaborators)
     = Some ((122 - 1 / 1000, 47 + 1 / 1000), (123 + 1 / 1000, 47 - 1 / 1000))"
  by (simp add: sample_runway_geo)

lemma sample_contains:
  "\<not> rectContains sampleCollaborators
       (Some ((122 - 1 / 1000, 47 + 1 / 1000), (123 + 1 / 1000, 47 - 1 / 1000))) (Some (10, 10))"
  "rectContains sampleCollaborators
       (Some ((122 - 1 / 1000, 47 + 1 / 1000), (123 + 1 / 1000, 47 - 1 / 1000))) (Some (123, 47))"
  by (simp_all add: sample_runway_geo plainContains_def)

text \<open>The seven cases and the airport row at the concrete sessions.\<close>

theorem center_position_at_finalize_witness:
  "airportPos (resolveBoundingRect sampleCollaborators sampleDatumOnlySession) = Some (- 122, 47)
   \<and> (\<exists>row. airportRows (finishAirport sampleCollaborators sampleContext sampleDatumOnlySession)
               = airportRows sampleDatumOnlySession @ [row]
          \<and> row '':lonx'' = Some (VFloat (- 122)) \<and> row '':laty'' = Some (VFloat 47))
   \<and> airportPos (resolveBoundingRect sampleCollaborators sampleRunwayOnlySession) = Some (- 123, 48)
   \<and> airportPos (resolveBoundingRect sampleCollaborators sampleAirportSession) = None
   \<and> airportPos (resolveBoundingRect sampleCollaborators sampleNearDatumSession) = Some (123, 47)
   \<and> airportPos (resolveBoundingRect sampleCollaborators sampleFarDatumSession) = Some (245 / 2, 47)
   \<and> airportPos (resolveBoundingRect sampleCollaborators sampleTwoRunwaySession) = Some (245 / 2, 47)
   \<and> airportPos (resolveBoundingRect sampleCollaborators sampleOneRunwaySession) = None"
proof -
  note t1 = center_position_at_finalize [OF sampleDatumOnlySession_state(1,2),
      of sampleCollaborators sampleContext]
  note t2 = center_position_at_finalize [OF sampleRunwayOnlySession_state(1,2),
      of sampleCollaborators sampleContext]
  note t3 = center_position_at_finalize [OF sampleAirportSession_state(2,1),
      of sampleCollaborators sampleContext]
  note t4 = center_position_at_finalize [OF sampleNearDatumSession_state(1,2),
      of sampleCollaborators sampleContext]
  note t5 = center_position_at_finalize [OF sampleFarDatumSession_state(1,2),
      of sampleCollaborators sampleContext]
  note t6 = center_position_at_finalize [OF sampleTwoRunwaySession_state(1,2),
      of sampleCollaborators sampleContext]
  note t7 = center_position_at_finalize [OF sampleOneRunwaySession_state(1,2),
      of sampleCollaborators sampleContext]
  have p1: "airportPos (resolveBoundingRect sampleCollaborators sampleDatumOnlySession) = Some (- 122, 47)"
    using t1 [THEN conjunct1] by (simp add: sample_geo sampleDatumOnlySession_state)
  have r1: "\<exists>row. airportRows (finishAirport sampleCollaborators sampleContext sampleDatumOnlySession)
               = airportRows sampleDatumOnlySession @ [row]
          \<and> row '':lonx'' = Some (VFloat (- 122)) \<and> row '':laty'' = Some (VFloat 47)"
    using t1 [THEN conjunct2, THEN conjunct2, THEN conjunct2, THEN conjunct2, THEN conjunct2,
        THEN conjunct2, THEN conjunct2] p1
    by (simp add: sample_geo)
  have p2: "airportPos (resolveBoundingRect sampleCollaborators sampleRunwayOnlySession) = Some (- 123, 48)"
    using t2 [THEN conjunct2, THEN conjunct1] by (simp add: sample_geo sampleRunwayOnlySession_state)
  have p3: "airportPos (resolveBoundingRect sampleCollaborators sampleAirportSession) = None"
    using t3 [THEN conjunct2, THEN conjunct2, THEN conjunct1]
    by (simp add: sample_geo sampleAirportSession_geo)
  have p4: "airportPos (resolveBoundingRect sampleCollaborators sampleNearDatumSession) = Some (123, 47)"
    using t4 [THEN conjunct2, THEN conjunct2, THEN conjunct2, THEN conjunct1] sample_contains(2)
    by (simp add: sample_geo sampleNearDatumSession_state sample_inflated)
  have p5: "airportPos (resolveBoundingRect sampleCollaborators sampleFarDatumSession) = Some (245 / 2, 47)"
    using t5 [THEN conjunct2, THEN conjunct2, THEN conjunct2, THEN conjunct2, THEN conjunct1]
      sample_contains(1)
    by (simp add: sample_geo sampleFarDatumSession_state sample_inflated)
  have p6: "airportPos (resolveBoundingRect sampleCollaborators sampleTwoRunwaySession) = Some (245 / 2, 47)"
    using t6 [THEN conjunct2, THEN conjunct2, THEN conjunct2, THEN conjunct2, THEN conjunct2,
        THEN conjunct1] sample_contains(1)
    by (simp add: sample_geo sampleTwoRunwaySession_state sample_inflated sample_runway_geo)
  have p7: "airportPos (resolveBoundingRect sampleCollaborators sampleOneRunwaySession) = None"
    using t7 [THEN conjunct2, THEN conjunct2, THEN conjunct2, THEN conjunct2, THEN conjunct2,
        THEN conjunct2, THEN conjunct1]
    by (simp add: sample_geo sampleOneRunwaySession_state)
  from p1 r1 p2 p3 p4 p5 p6 p7 show ?thesis by (intro conjI)
qed

text \<open>
  Claim C2 as stated fails in both halves. With no rectangle and a valid datum position
  the datum position becomes the centre and the airport row carries it. With a
  rectangle, a valid datum position outside it and one runway, the centre of the longest
  runway becomes the centre although neither rectangle nor datum position is missing.
\<close>

theorem finalize_center_counterexample:
  "\<not> rectIsValid sampleCollaborators (airportRect sampleDatumOnlySession)
   \<and> posIsValid sampleCollaborators (airportDatumPos sampleDatumOnlySession)
   \<and> airportPos (resolveBoundingRect sampleCollaborators sampleDatumOnlySession)
       = airportDatumPos sampleDatumOnlySession
   \<and> last (airportRows (finishAirport sampleCollaborators sampleContext sampleDatumOnlySession))
        '':lonx'' = Some (VFloat (getLonX sampleCollaborators (airportDatumPos sampleDatumOnlySession)))
   \<and> last (airportRows (finishAirport sampleCollaborators sampleContext sampleDatumOnlySession))
        '':laty'' = Some (VFloat (getLatY sampleCollaborators (airportDatumPos sampleDatumOnlySession)))
   \<and> rectIsValid sampleCollaborators (airportRect sampleFarDatumSession)
   \<and> posIsValid sampleCollaborators (airportDatumPos sampleFarDatumSession)
   \<and> airportPos (resolveBoundingRect sampleCollaborators sampleFarDatumSession)
       = longestRunwayCenterPos sampleFarDatumSession
   \<and> longestRunwayCenterPos sampleFarDatumSession \<noteq> airportDatumPos sampleFarDatumSession"
proof -
  have a: "\<not> rectIsValid sampleCollaborators (airportRect sampleDatumOnlySession)"
    "posIsValid sampleCollaborators (airportDatumPos sampleDatumOnlySession)"
    by (simp_all add: sample_geo sampleDatumOnlySession_state)
  note p = resolve_no_rect_datum(1) [OF a]
  from a(2) p have v: "posIsValid sampleCollaborators
      (airportPos (resolveBoundingRect sampleCollaborators sampleDatumOnlySession))" by simp
  from finishAirport_center [OF sampleDatumOnlySession_state(1,2) v, of sampleContext] p
  have row: "last (airportRows (finishAirport sampleCollaborators sampleContext sampleDatumOnlySession))
        '':lonx'' = Some (VFloat (getLonX sampleCollaborators (airportDatumPos sampleDatumOnlySession)))"
    "last (airportRows (finishAirport sampleCollaborators sampleContext sampleDatumOnlySession))
        '':laty'' = Some (VFloat (getLatY sampleCollaborators (airportDatumPos sampleDatumOnlySession)))"
    by auto
  have b: "rectIsValid sampleCollaborators (airportRect sampleFarDatumSession)"
    "posIsValid sampleCollaborators (airportDatumPos sampleFarDatumSession)"
    "\<not> rectContains sampleCollaborators
         (rectInflate sampleCollaborators (airportRect sampleFarDatumSession)
            (POS_EPSILON_100M sampleCollaborators) (POS_EPSILON_100M sampleCollaborators))
         (airportDatumPos sampleFarDatumSession)"
    "numRunway sampleFarDatumSession = 1"
    using sample_contains(1)
    by (simp_all add: sample_geo sampleFarDatumSession_state sample_inflated)
  note q = resolve_rect_datum_outside_one [OF b]
  have d: "longestRunwayCenterPos sampleFarDatumSession \<noteq> airportDatumPos sampleFarDatumSession"
    by (simp add: sampleFarDatumSession_state)
  from a p row b(1,2) q d show ?thesis by (intro conjI)
qed

end
